theory Spec2Isabelle
  imports Main
begin

section \<open>JavaScript values\<close>

text \<open>
  The library works on untyped JavaScript data (\<^verbatim>\<open>result: any\<close>). A value is one of the
  primitives, an array, or an object. An object is the list of its own properties in
  insertion order; a property is looked up with \<^const>\<open>map_of\<close>. Numbers are the integers
  (a JavaScript number is a double, exact below \<open>2^53\<close>); floats and dates are outside the
  model. Strings are lists of \<^typ>\<open>char\<close>, that is code units below 256. JavaScript lists
  the properties whose names are array indices before the others; the lists here keep
  insertion order, and the one place that reads a property by its position, \<^verbatim>\<open>textFn\<close>,
  goes through \<open>object_keys\<close>, which puts the names in JavaScript's order.
\<close>

datatype jsval =
    JUndefined
  | JNull
  | JBool bool
  | JNum int
  | JStr string
  | JArr "jsval list"
  | JObj "(string \<times> jsval) list"

datatype error = TypeError | ParseError | NetworkError

text \<open>\<^verbatim>\<open>!v\<close> is the negation of \<open>truthy v\<close>.\<close>

fun truthy :: "jsval \<Rightarrow> bool" where
  "truthy JUndefined = False"
| "truthy JNull = False"
| "truthy (JBool b) = b"
| "truthy (JNum n) = (n \<noteq> 0)"
| "truthy (JStr s) = (s \<noteq> [])"
| "truthy (JArr xs) = True"
| "truthy (JObj kvs) = True"

text \<open>
  \<^verbatim>\<open>v.k\<close> for a property name \<open>k\<close> that is neither \<^verbatim>\<open>length\<close> nor an index (the
  names the code reads are \<^verbatim>\<open>multistatus\<close>, \<^verbatim>\<open>response\<close>, \<^verbatim>\<open>status\<close>, \<^verbatim>\<open>href\<close>,
  \<^verbatim>\<open>error\<close>, \<^verbatim>\<open>responsedescription\<close>, \<^verbatim>\<open>propstat\<close> and \<^verbatim>\<open>prop\<close>): reading a
  property of \<^verbatim>\<open>undefined\<close> or \<^verbatim>\<open>null\<close> throws a TypeError, an object answers with
  its own property or \<^verbatim>\<open>undefined\<close>, every other value with \<^verbatim>\<open>undefined\<close>.
\<close>

fun member :: "jsval \<Rightarrow> string \<Rightarrow> error + jsval" where
  "member JUndefined k = Inl TypeError"
| "member JNull k = Inl TypeError"
| "member (JObj kvs) k = Inr (case map_of kvs k of None \<Rightarrow> JUndefined | Some v \<Rightarrow> v)"
| "member v k = Inr JUndefined"

text \<open>\<^verbatim>\<open>v?.k\<close>: \<^verbatim>\<open>undefined\<close> where \<^verbatim>\<open>v.k\<close> would throw.\<close>

definition opt_member :: "jsval \<Rightarrow> string \<Rightarrow> jsval" where
  "opt_member v k = (case member v k of Inl e \<Rightarrow> JUndefined | Inr x \<Rightarrow> x)"

subsection \<open>Numbers and strings\<close>

text \<open>The digit of a number below ten.\<close>

definition digit_char :: "nat \<Rightarrow> char" where
  "digit_char d = ''0123456789'' ! d"

text \<open>The decimal numeral of a natural number.\<close>

function show_nat :: "nat \<Rightarrow> string" where
  "show_nat n =
     (if n < 10 then [digit_char n] else show_nat (n div 10) @ [digit_char (n mod 10)])"
  by pat_completeness auto
termination
  by (relation "measure id") auto

declare show_nat.simps [simp del]

definition show_int :: "int \<Rightarrow> string" where
  "show_int i = (if i < 0 then CHR ''-'' # show_nat (nat (- i)) else show_nat (nat i))"

fun join_comma :: "string list \<Rightarrow> string" where
  "join_comma [] = []"
| "join_comma [s] = s"
| "join_comma (s # t # ss) = s @ '','' @ join_comma (t # ss)"

text \<open>
  \<^verbatim>\<open>String(v)\<close>, the conversion \<^verbatim>\<open>RegExp.prototype.exec\<close> applies to its argument.
  An array joins its elements with commas, \<^verbatim>\<open>undefined\<close> and \<^verbatim>\<open>null\<close> elements as
  the empty string.
\<close>

fun to_string :: "jsval \<Rightarrow> string" where
  "to_string JUndefined = ''undefined''"
| "to_string JNull = ''null''"
| "to_string (JBool b) = (if b then ''true'' else ''false'')"
| "to_string (JNum n) = show_int n"
| "to_string (JStr s) = s"
| "to_string (JArr xs) =
     join_comma (map (\<lambda>x. if x = JUndefined \<or> x = JNull then [] else to_string x) xs)"
| "to_string (JObj kvs) = ''[object Object]''"

text \<open>
  \<^verbatim>\<open>Number.parseInt(ds, 10)\<close> on a string of decimal digits: the integer the digits
  denote. A JavaScript number holds it exactly when there are at most 15 digits.
\<close>

definition digit_val :: "char \<Rightarrow> int" where
  "digit_val c = int (length (takeWhile (\<lambda>d. d \<noteq> c) ''0123456789''))"

definition parseInt10 :: "string \<Rightarrow> int" where
  "parseInt10 ds = foldl (\<lambda>n c. 10 * n + digit_val c) 0 ds"

section \<open>Regular expressions\<close>

text \<open>
  The three regular expressions of \<^verbatim>\<open>request.ts\<close> are anchored at the start and are
  sequences of single characters of a class and greedy repetitions \<^verbatim>\<open>c+\<close> of a class.
  \<open>rmatch\<close> is the backtracking matcher for such sequences: \<open>Many\<close> first takes the longest
  run and gives characters back one at a time until the rest of the pattern matches. It
  returns the text each item matched and the unmatched rest.
\<close>

datatype item = One "char \<Rightarrow> bool" | Many "char \<Rightarrow> bool" | End

fun backtrack :: "(nat \<Rightarrow> 'a option) \<Rightarrow> nat \<Rightarrow> 'a option" where
  "backtrack f 0 = None"
| "backtrack f (Suc k) = (case f (Suc k) of Some r \<Rightarrow> Some r | None \<Rightarrow> backtrack f k)"

primrec rmatch :: "item list \<Rightarrow> string \<Rightarrow> (string list \<times> string) option" where
  "rmatch [] = (\<lambda>s. Some ([], s))"
| "rmatch (i # is) = (\<lambda>s.
     case i of
       One p \<Rightarrow>
         (case s of
            [] \<Rightarrow> None
          | c # cs \<Rightarrow>
              if p c then map_option (\<lambda>(gs, r). ([c] # gs, r)) (rmatch is cs) else None)
     | Many p \<Rightarrow>
         backtrack
           (\<lambda>k. map_option (\<lambda>(gs, r). (take k s # gs, r)) (rmatch is (drop k s)))
           (length (takeWhile p s))
     | End \<Rightarrow>
         (if s = [] then map_option (\<lambda>(gs, r). ([] # gs, r)) (rmatch is s) else None))"

text \<open>
  The character classes. A line terminator is LF or CR (U+2028 and U+2029 are not
  code units below 256); white space is TAB, LF, VT, FF, CR, space and NBSP.
\<close>

definition line_terminator :: "char \<Rightarrow> bool" where
  "line_terminator c = (c = CHR 0x0A \<or> c = CHR 0x0D)"

definition dot :: "char \<Rightarrow> bool" where
  "dot c = (\<not> line_terminator c)"

definition colon :: "char \<Rightarrow> bool" where
  "colon c = (c = CHR '':'')"

definition space :: "char \<Rightarrow> bool" where
  "space c = (c \<in> set [CHR 0x09, CHR 0x0A, CHR 0x0B, CHR 0x0C, CHR 0x0D, CHR 0x20, CHR 0xA0])"

definition nonspace :: "char \<Rightarrow> bool" where
  "nonspace c = (\<not> space c)"

definition digit :: "char \<Rightarrow> bool" where
  "digit c = (c \<in> set ''0123456789'')"

text \<open>\<^verbatim>\<open>/^.+:.+/.test(name)\<close>\<close>

definition has_namespace :: "string \<Rightarrow> bool" where
  "has_namespace name = (rmatch [Many dot, One colon, Many dot] name \<noteq> None)"

text \<open>\<^verbatim>\<open>name.replace(/^.+:/, '')\<close>: the matched prefix is removed, the rest is kept.\<close>

definition replace_prefix :: "string \<Rightarrow> string" where
  "replace_prefix name =
     (case rmatch [Many dot, One colon] name of None \<Rightarrow> name | Some (gs, r) \<Rightarrow> r)"

text \<open>
  \<^verbatim>\<open>/^\S+\s(?<status>\d+)\s(?<statusText>.+)$/.exec(s)\<close>: the two named groups of
  a match.
\<close>

definition statusRegex_exec :: "string \<Rightarrow> (string \<times> string) option" where
  "statusRegex_exec s =
     (case rmatch [Many nonspace, One space, Many digit, One space, Many dot, End] s of
        Some ([protocol, sp1, code, sp2, reason, e], r) \<Rightarrow> Some (code, reason)
      | _ \<Rightarrow> None)"

section \<open>The callbacks handed to xml-js\<close>

subsection \<open>Outgoing: \<^verbatim>\<open>elementNameFn\<close> of \<^verbatim>\<open>js2xml\<close> (request.ts, lines 45 to 51)\<close>

text \<open>
  \<^verbatim>\<open>namespace\<close> is a string or \<^verbatim>\<open>undefined\<close>; the guard \<^verbatim>\<open>namespace && ...\<close> takes the
  empty string as absent.
\<close>

definition js2xml_elementNameFn :: "string option \<Rightarrow> string \<Rightarrow> string" where
  "js2xml_elementNameFn namespace name =
     (case namespace of
        None \<Rightarrow> name
      | Some ns \<Rightarrow> if ns \<noteq> [] \<and> \<not> has_namespace name then ns @ '':'' @ name else name)"

subsection \<open>Incoming: \<^verbatim>\<open>elementNameFn\<close> and \<^verbatim>\<open>attributesFn\<close> of \<^verbatim>\<open>xml2js\<close> (lines 109 to 114)\<close>

text \<open>
  \<^verbatim>\<open>camelCase\<close> is imported from \<^verbatim>\<open>util/camelCase\<close>, which is not among the sources: it is
  a parameter.
\<close>

definition xml2js_elementNameFn :: "(string \<Rightarrow> string) \<Rightarrow> string \<Rightarrow> string" where
  "xml2js_elementNameFn camelCase attributeName = camelCase (replace_prefix attributeName)"

text \<open>
  Modelled from the spec: \<^verbatim>\<open>camelCase\<close> of \<^verbatim>\<open>util/camelCase\<close>, for evaluating
  \<open>xml2js_elementNameFn\<close> on concrete names. The spec: "delimiter characters such as hyphen
  are removed and the following character upper-cased; already-camelCase or single-word
  input passes through unchanged". The delimiter is the hyphen; upper-casing is that of
  the ASCII letters.
\<close>

definition upper_char :: "char \<Rightarrow> char" where
  "upper_char c =
     (case map_of (zip ''abcdefghijklmnopqrstuvwxyz'' ''ABCDEFGHIJKLMNOPQRSTUVWXYZ'') c of
        None \<Rightarrow> c
      | Some u \<Rightarrow> u)"

fun camelCase_spec :: "string \<Rightarrow> string" where
  "camelCase_spec [] = []"
| "camelCase_spec [c] = (if c = CHR ''-'' then [] else [c])"
| "camelCase_spec (c # d # cs) =
     (if c = CHR ''-'' then camelCase_spec (upper_char d # cs) else c # camelCase_spec (d # cs))"

text \<open>
  \<^verbatim>\<open>attributesFn\<close>: a copy of the attribute object without its own property
  \<^verbatim>\<open>xmlns\<close>. The attribute object is the list of (name, value) pairs in document order.
\<close>

definition attributesFn :: "(string \<times> string) list \<Rightarrow> (string \<times> string) list" where
  "attributesFn val = filter (\<lambda>(k, v). k \<noteq> ''xmlns'') val"

section \<open>The response records\<close>

text \<open>
  \<^verbatim>\<open>DAVResponse\<close>, the element of the sequence that \<^verbatim>\<open>davRequest\<close> resolves to. A field
  the object literal does not set is \<open>None\<close>. \<^verbatim>\<open>raw\<close> is the body text of the raw
  fallback result and the whole parsed tree of a multistatus result.
\<close>

record DAVResponse =
  raw :: "jsval option"
  href :: "jsval option"
  status :: int
  statusText :: string
  ok :: bool
  error :: "jsval option"
  responsedescription :: "jsval option"
  props :: "(string \<times> jsval) list option"

text \<open>What the transport collaborator answers: the fields of the fetch \<^verbatim>\<open>Response\<close> that are read.\<close>

record HttpResponse =
  res_ok :: bool
  res_status :: int
  res_statusText :: string
  res_url :: string
  res_content_type :: "string option"
  res_text :: string

section \<open>Multistatus normalization (request.ts, lines 118 to 152)\<close>

text \<open>\<^verbatim>\<open>Array.isArray(v) ? v : [v]\<close>\<close>

fun as_array :: "jsval \<Rightarrow> jsval list" where
  "as_array (JArr xs) = xs"
| "as_array v = [v]"

text \<open>
  The own enumerable properties an object spread \<^verbatim>\<open>...v\<close> copies: those of an object, the
  indexed elements of an array or a string, none of any other value.
\<close>

definition indexed :: "jsval list \<Rightarrow> (string \<times> jsval) list" where
  "indexed xs = zip (map show_nat [0..<length xs]) xs"

fun own_properties :: "jsval \<Rightarrow> (string \<times> jsval) list" where
  "own_properties (JObj kvs) = kvs"
| "own_properties (JArr xs) = indexed xs"
| "own_properties (JStr s) = indexed (map (\<lambda>c. JStr [c]) s)"
| "own_properties v = []"

text \<open>
  \<^verbatim>\<open>{ ...prev, ...src }\<close> on property lists: a property of \<open>prev\<close> keeps its place and takes
  the value \<open>src\<close> has for its name, if any; the properties only \<open>src\<close> has follow.
\<close>

definition object_spread :: "('k \<times> 'v) list \<Rightarrow> ('k \<times> 'v) list \<Rightarrow> ('k \<times> 'v) list" where
  "object_spread prev src =
     map (\<lambda>(k, v). (k, case map_of src k of None \<Rightarrow> v | Some v' \<Rightarrow> v')) prev
     @ filter (\<lambda>(k, v). map_of prev k = None) src"

text \<open>
  The \<^verbatim>\<open>reduce\<close> of lines 142 to 150 over the normalized \<^verbatim>\<open>propstat\<close>, from the empty
  object.
\<close>

definition fold_props :: "jsval \<Rightarrow> (string \<times> jsval) list" where
  "fold_props propstat =
     foldl (\<lambda>prev curr. object_spread prev (own_properties (opt_member curr ''prop'')))
       [] (as_array propstat)"

text \<open>
  The callback of \<^verbatim>\<open>responseBodies.map\<close>. Past the guard \<^verbatim>\<open>!responseBody\<close> the response
  is truthy, so reading its properties cannot throw: \<open>opt_member\<close> is \<open>member\<close> there.
\<close>

definition normalize_response :: "HttpResponse \<Rightarrow> jsval \<Rightarrow> jsval \<Rightarrow> DAVResponse" where
  "normalize_response davResponse result responseBody =
     (if \<not> truthy responseBody then
        \<lparr> raw = None, href = None,
          status = res_status davResponse, statusText = res_statusText davResponse,
          ok = res_ok davResponse,
          error = None, responsedescription = None, props = None \<rparr>
      else
        let matchArr = statusRegex_exec (to_string (opt_member responseBody ''status'')) in
        \<lparr> raw = Some result,
          href = Some (opt_member responseBody ''href''),
          status = (case matchArr of
                      Some (code, reason) \<Rightarrow> parseInt10 code
                    | None \<Rightarrow> res_status davResponse),
          statusText = (case matchArr of
                      Some (code, reason) \<Rightarrow> reason
                    | None \<Rightarrow> res_statusText davResponse),
          ok = (\<not> truthy (opt_member responseBody ''error'')),
          error = Some (opt_member responseBody ''error''),
          responsedescription = Some (opt_member responseBody ''responsedescription''),
          props = Some (fold_props (opt_member responseBody ''propstat'')) \<rparr>)"

text \<open>
  Lines 118 to 152: \<^verbatim>\<open>result.multistatus.response\<close> throws a TypeError when the tree has
  no \<^verbatim>\<open>multistatus\<close>.
\<close>

definition multistatus_results :: "HttpResponse \<Rightarrow> jsval \<Rightarrow> error + DAVResponse list" where
  "multistatus_results davResponse result =
     (case member result ''multistatus'' of
        Inl e \<Rightarrow> Inl e
      | Inr multistatus \<Rightarrow>
          (case member multistatus ''response'' of
             Inl e \<Rightarrow> Inl e
           | Inr response \<Rightarrow>
               Inr (map (normalize_response davResponse result) (as_array response))))"

section \<open>\<^verbatim>\<open>davRequest\<close> (request.ts, lines 26 to 153)\<close>

record DAVCredentials =
  username :: string
  password :: string

text \<open>
  \<^verbatim>\<open>DAVAccount\<close> (its declaration, \<^verbatim>\<open>types/models\<close>, is not among the sources): the
  fields the code reads, each optional. Of an address book the account already holds,
  only the url is read.
\<close>

record DAVAccount =
  accountType :: "string option"
  credentials :: "DAVCredentials option"
  homeUrl :: "string option"
  rootUrl :: "string option"
  addressBooks :: "string list option"

text \<open>\<^verbatim>\<open>DAVRequest\<close>, the \<^verbatim>\<open>init\<close> of a request; \<open>'b\<close> is the type of the body.\<close>

record 'b DAVRequest =
  headers :: "(string \<times> string) list option"
  body :: 'b
  namespace :: "string option"
  method' :: string
  attributes :: "(string \<times> string) list option"

text \<open>
  One exchange with the transport collaborator (\<^verbatim>\<open>client.fetch\<close> of a digest-fetch client
  built from the credentials). The body on the wire is the serialized document or the
  caller's body as it is.
\<close>

datatype 'b wire = XmlBody string | RawBody 'b

record 'b Exchange =
  ex_username :: string
  ex_password :: string
  ex_url :: "string option"
  ex_method :: string
  ex_headers :: "(string \<times> string) list option"
  ex_body :: "'b wire option"

text \<open>
  The collaborators of \<^verbatim>\<open>request.ts\<close>, none of them among the sources:
  \<^item> \<open>client\<close>: the transport; it answers an exchange or fails (a rejected promise);
  \<^item> \<open>js2xml\<close>: \<^verbatim>\<open>convert.js2xml\<close> with the options of lines 42 to 52, given the
    \<^verbatim>\<open>elementNameFn\<close>, the body and the \<^verbatim>\<open>_attributes\<close>;
  \<^item> \<open>xml2js\<close>: \<^verbatim>\<open>convert.xml2js\<close> with the options of lines 85 to 115; it fails on
    text that is not XML;
  \<^item> \<open>cleanupFalsy\<close> of \<^verbatim>\<open>util/requestHelpers\<close>;
  \<^item> \<open>dav_short\<close>: the constant \<^verbatim>\<open>DAVNamespaceShort.DAV\<close>;
  \<^item> \<open>dav_attributes\<close>: the value of \<^verbatim>\<open>getDAVAttribute\<close> on the five namespaces of
    lines 171 to 177.
\<close>

record 'b env =
  client :: "'b Exchange \<Rightarrow> error + HttpResponse"
  js2xml :: "(string \<Rightarrow> string) \<Rightarrow> 'b \<Rightarrow> (string \<times> string) list option \<Rightarrow> string"
  xml2js :: "string \<Rightarrow> error + jsval"
  cleanupFalsy :: "(string \<times> string option) list \<Rightarrow> (string \<times> string) list"
  dav_short :: string
  dav_attributes :: "(string \<times> string) list"

text \<open>
  The exchanges performed so far are kept in a log, so that "no exchange took place" is
  a statement about the result.
\<close>

definition client_fetch ::
  "'b env \<Rightarrow> 'b Exchange \<Rightarrow> 'b Exchange list \<Rightarrow> (error + HttpResponse) \<times> 'b Exchange list" where
  "client_fetch e ex log = (client e ex, log @ [ex])"

text \<open>\<^verbatim>\<open>s.includes(sub)\<close>\<close>

definition str_includes :: "string \<Rightarrow> string \<Rightarrow> bool" where
  "str_includes s sub = list_ex (\<lambda>i. take (length sub) (drop i s) = sub) [0..<Suc (length s)]"

text \<open>\<^verbatim>\<open>davResponse.headers.get('content-type')?.includes('xml')\<close>, as a condition.\<close>

definition content_type_xml :: "HttpResponse \<Rightarrow> bool" where
  "content_type_xml davResponse =
     (case res_content_type davResponse of None \<Rightarrow> False | Some ct \<Rightarrow> str_includes ct ''xml'')"

text \<open>The exchange of lines 57 to 64, for the credentials \<open>c\<close>.\<close>

definition davRequest_exchange ::
  "'b env \<Rightarrow> string option \<Rightarrow> 'b DAVRequest \<Rightarrow> DAVCredentials \<Rightarrow> bool option \<Rightarrow> 'b Exchange" where
  "davRequest_exchange e url init c convertIncoming =
     (let xmlBody =
        (if (case convertIncoming of None \<Rightarrow> True | Some b \<Rightarrow> b)
         then XmlBody (js2xml e (js2xml_elementNameFn (namespace init)) (body init) (attributes init))
         else RawBody (body init))
      in \<lparr> ex_username = username c, ex_password = password c, ex_url = url,
           ex_method = method' init,
           ex_headers = Some [(''Content-Type'', ''application/xml; charset=utf-8'')],
           ex_body = Some xmlBody \<rparr>)"

text \<open>The object literal of lines 74 to 80.\<close>

definition raw_fallback_result :: "HttpResponse \<Rightarrow> DAVResponse" where
  "raw_fallback_result davResponse =
     \<lparr> raw = Some (JStr (res_text davResponse)),
       href = Some (JStr (res_url davResponse)),
       status = res_status davResponse,
       statusText = res_statusText davResponse,
       ok = res_ok davResponse,
       error = None, responsedescription = None, props = None \<rparr>"

text \<open>
  The parameters \<^verbatim>\<open>convertIncoming\<close> and \<^verbatim>\<open>parseOutgoing\<close> default to true when they are
  \<^verbatim>\<open>undefined\<close>. The non-null assertions of line 57 are no check at run time:
  \<^verbatim>\<open>account!.credentials!.username\<close> throws a TypeError when the account or its
  credentials are \<^verbatim>\<open>undefined\<close>. The document is serialized before that line; the
  serializer is taken to return.
\<close>

definition davRequest ::
  "'b env \<Rightarrow> string option \<Rightarrow> 'b DAVRequest \<Rightarrow> DAVAccount option \<Rightarrow> bool option \<Rightarrow> bool option
     \<Rightarrow> 'b Exchange list \<Rightarrow> (error + DAVResponse list) \<times> 'b Exchange list" where
  "davRequest e url init account convertIncoming parseOutgoing log =
     (case account of
        None \<Rightarrow> (Inl TypeError, log)
      | Some a \<Rightarrow>
      (case credentials a of
        None \<Rightarrow> (Inl TypeError, log)
      | Some c \<Rightarrow>
      (case client_fetch e (davRequest_exchange e url init c convertIncoming) log of
        (Inl err, log') \<Rightarrow> (Inl err, log')
      | (Inr davResponse, log') \<Rightarrow>
          if \<not> res_ok davResponse \<or> \<not> content_type_xml davResponse
             \<or> \<not> (case parseOutgoing of None \<Rightarrow> True | Some b \<Rightarrow> b)
          then (Inr [raw_fallback_result davResponse], log')
          else
            (case xml2js e (res_text davResponse) of
               Inl err \<Rightarrow> (Inl err, log')
             | Inr result \<Rightarrow> (multistatus_results davResponse result, log')))))"

section \<open>The other requests of request.ts (lines 155 to 225)\<close>

text \<open>
  The compact element tree xml-js serializes (\<^verbatim>\<open>ElementCompact\<close>), as far as the
  requests of this library use it: an element is \<^verbatim>\<open>undefined\<close>, \<^verbatim>\<open>null\<close> or the empty
  string (\<open>XEmpty\<close>), or an object with an optional \<^verbatim>\<open>_attributes\<close> and its child elements in
  key order. An array of elements under one key is the run of children of that name.
  Text content is not modelled.
\<close>

datatype xelem = XEmpty | XElem "(string \<times> string) list option" "(string \<times> xelem) list"

type_synonym xbody = "(string \<times> xelem) list"

text \<open>
  \<^verbatim>\<open>propfind\<close> destructures its one parameter. Destructuring \<^verbatim>\<open>undefined\<close> throws a
  TypeError; a string has none of the five properties, so each comes out \<^verbatim>\<open>undefined\<close>.
\<close>

record propfind_params =
  pf_url :: "string option"
  pf_props :: xelem
  pf_depth :: "string option"
  pf_headers :: "(string \<times> string) list option"
  pf_account :: "DAVAccount option"

datatype propfind_arg = PObject propfind_params | PString string | PUndefined

definition destructure :: "propfind_arg \<Rightarrow> error + propfind_params" where
  "destructure params =
     (case params of
        PObject p \<Rightarrow> Inr p
      | PString s \<Rightarrow>
          Inr \<lparr> pf_url = None, pf_props = XEmpty, pf_depth = None, pf_headers = None,
                pf_account = None \<rparr>
      | PUndefined \<Rightarrow> Inl TypeError)"

text \<open>\<^verbatim>\<open>{ k: v, ...headers }\<close> for optional \<^verbatim>\<open>headers\<close>, with values that may be undefined.\<close>

definition with_headers ::
  "string \<Rightarrow> string option \<Rightarrow> (string \<times> string) list option \<Rightarrow> (string \<times> string option) list" where
  "with_headers k v hs =
     object_spread [(k, v)] (map (\<lambda>(n, x). (n, Some x)) (case hs of None \<Rightarrow> [] | Some h \<Rightarrow> h))"

definition propfind ::
  "xbody env \<Rightarrow> propfind_arg \<Rightarrow> xbody Exchange list
     \<Rightarrow> (error + DAVResponse list) \<times> xbody Exchange list" where
  "propfind e params log =
     (case destructure params of
        Inl err \<Rightarrow> (Inl err, log)
      | Inr p \<Rightarrow>
          davRequest e (pf_url p)
            \<lparr> headers = Some (cleanupFalsy e (with_headers ''depth'' (pf_depth p) (pf_headers p))),
              body = [(''propfind'', XElem (Some (dav_attributes e)) [(''prop'', pf_props p)])],
              namespace = Some (dav_short e),
              method' = ''PROPFIND'',
              attributes = None \<rparr>
            (pf_account p) None None log)"

definition createObject ::
  "'b env \<Rightarrow> string option \<Rightarrow> 'b \<Rightarrow> (string \<times> string) list option \<Rightarrow> DAVAccount option
     \<Rightarrow> 'b Exchange list \<Rightarrow> (error + HttpResponse) \<times> 'b Exchange list" where
  "createObject e url data hs account log =
     (case account of
        None \<Rightarrow> (Inl TypeError, log)
      | Some a \<Rightarrow>
      (case credentials a of
        None \<Rightarrow> (Inl TypeError, log)
      | Some c \<Rightarrow>
          client_fetch e
            \<lparr> ex_username = username c, ex_password = password c, ex_url = url,
              ex_method = ''PUT'', ex_headers = hs, ex_body = Some (RawBody data) \<rparr> log))"

definition updateObject ::
  "'b env \<Rightarrow> string option \<Rightarrow> 'b \<Rightarrow> string option \<Rightarrow> (string \<times> string) list option
     \<Rightarrow> DAVAccount option \<Rightarrow> 'b Exchange list \<Rightarrow> (error + HttpResponse) \<times> 'b Exchange list" where
  "updateObject e url data etag hs account log =
     (case account of
        None \<Rightarrow> (Inl TypeError, log)
      | Some a \<Rightarrow>
      (case credentials a of
        None \<Rightarrow> (Inl TypeError, log)
      | Some c \<Rightarrow>
          client_fetch e
            \<lparr> ex_username = username c, ex_password = password c, ex_url = url,
              ex_method = ''PUT'',
              ex_headers = Some (cleanupFalsy e (with_headers ''If-Match'' etag hs)),
              ex_body = Some (RawBody data) \<rparr> log))"

definition deleteObject ::
  "'b env \<Rightarrow> string option \<Rightarrow> string option \<Rightarrow> (string \<times> string) list option
     \<Rightarrow> DAVAccount option \<Rightarrow> 'b Exchange list \<Rightarrow> (error + HttpResponse) \<times> 'b Exchange list" where
  "deleteObject e url etag hs account log =
     (case account of
        None \<Rightarrow> (Inl TypeError, log)
      | Some a \<Rightarrow>
      (case credentials a of
        None \<Rightarrow> (Inl TypeError, log)
      | Some c \<Rightarrow>
          client_fetch e
            \<lparr> ex_username = username c, ex_password = password c, ex_url = url,
              ex_method = ''DELETE'',
              ex_headers = Some (cleanupFalsy e (with_headers ''If-Match'' etag hs)),
              ex_body = None \<rparr> log))"

section \<open>The serializer of xml-js, as \<^verbatim>\<open>davRequest\<close> calls it\<close>

text \<open>
  xml-js (1.6) is a dependency, not part of the sources. This is its compact writer
  (\<^verbatim>\<open>writeElementsCompact\<close>, \<^verbatim>\<open>writeElementCompact\<close>, \<^verbatim>\<open>writeAttributes\<close>,
  \<^verbatim>\<open>writeIndentation\<close> of \<^verbatim>\<open>lib/js2xml.js\<close>) under the options of lines 42 to 52
  (\<^verbatim>\<open>compact: true, spaces: 2\<close> and the \<^verbatim>\<open>elementNameFn\<close>), on the trees of \<open>xelem\<close>. It
  stands in for the parameter \<open>js2xml\<close> where a document is computed.
\<close>

definition writeIndentation :: "nat \<Rightarrow> bool \<Rightarrow> string" where
  "writeIndentation depth firstLine =
     (if firstLine then [] else [CHR 0x0A]) @ replicate (2 * depth) (CHR '' '')"

definition escape_quot :: "string \<Rightarrow> string" where
  "escape_quot v = concat (map (\<lambda>c. if c = CHR 0x22 then ''&quot;'' else [c]) v)"

definition writeAttributes :: "(string \<times> string) list \<Rightarrow> string" where
  "writeAttributes attrs =
     concat (map (\<lambda>(k, v). '' '' @ k @ ''='' @ [CHR 0x22] @ escape_quot v @ [CHR 0x22]) attrs)"

fun writeElementCompact :: "(string \<Rightarrow> string) \<Rightarrow> xelem \<Rightarrow> string \<Rightarrow> nat \<Rightarrow> string" where
  "writeElementCompact elementNameFn XEmpty name depth =
     ''<'' @ elementNameFn name @ ''/>''"
| "writeElementCompact elementNameFn (XElem attrs kids) name depth =
     (let elementName = elementNameFn name;
          start = ''<'' @ elementName @ (case attrs of None \<Rightarrow> [] | Some a \<Rightarrow> writeAttributes a);
          withClosingTag =
            (kids \<noteq> [] \<or> (case attrs of None \<Rightarrow> False
                           | Some a \<Rightarrow> map_of a ''xml:space'' = Some ''preserve''));
          inner = concat (map (\<lambda>(k, n).
                    writeIndentation (depth + 1) False
                      @ writeElementCompact elementNameFn n k (depth + 1)) kids)
      in if name = [] then inner
         else if \<not> withClosingTag then start @ ''/>''
         else start @ ''>'' @ inner
              @ (if kids \<noteq> [] then writeIndentation depth False else [])
              @ ''</'' @ elementName @ ''>'')"

text \<open>
  The document of \<^verbatim>\<open>{ _declaration: ..., ...body, _attributes: attributes }\<close>: the
  declaration, then the elements of the body, each on a line of its own. The writer skips
  an \<^verbatim>\<open>_attributes\<close> at the top level.
\<close>

definition xml_declaration :: string where
  "xml_declaration =
     ''<?xml'' @ writeAttributes [(''version'', ''1.0''), (''encoding'', ''utf-8'')] @ ''?>''"

definition js2xml_compact ::
  "(string \<Rightarrow> string) \<Rightarrow> xbody \<Rightarrow> (string \<times> string) list option \<Rightarrow> string" where
  "js2xml_compact elementNameFn b attrs =
     xml_declaration
     @ concat (map (\<lambda>(k, n). writeIndentation 0 False @ writeElementCompact elementNameFn n k 0) b)"

text \<open>
  For stating what the writer emits: the tree with every element name, at every depth,
  replaced by its image under \<open>f\<close>; and the trees all of whose element names are not
  empty (the writer treats an empty name apart).
\<close>

fun rename_elements :: "(string \<Rightarrow> string) \<Rightarrow> xelem \<Rightarrow> xelem" where
  "rename_elements f XEmpty = XEmpty"
| "rename_elements f (XElem attrs kids) =
     XElem attrs (map (\<lambda>(k, n). (f k, rename_elements f n)) kids)"

definition rename_body :: "(string \<Rightarrow> string) \<Rightarrow> xbody \<Rightarrow> xbody" where
  "rename_body f b = map (\<lambda>(k, n). (f k, rename_elements f n)) b"

fun named :: "xelem \<Rightarrow> bool" where
  "named XEmpty = True"
| "named (XElem attrs kids) = list_all (\<lambda>(k, n). k \<noteq> [] \<and> named n) kids"

definition named_body :: "xbody \<Rightarrow> bool" where
  "named_body b = list_all (\<lambda>(k, n). k \<noteq> [] \<and> named n) b"

section \<open>addressBook.ts\<close>

record fetch_options =
  opt_headers :: "(string \<times> string) list option"

text \<open>\<^verbatim>\<open>DAVAddressBook\<close>, as \<^verbatim>\<open>fetchAddressBooks\<close> builds it (lines 56 to 66).\<close>

record DAVAddressBook =
  data :: DAVResponse
  account :: DAVAccount
  url :: string
  ctag :: jsval
  displayName :: jsval
  resourcetype :: jsval
  syncToken :: jsval
  reports :: "jsval option"

text \<open>
  The collaborators of \<^verbatim>\<open>addressBook.ts\<close> that are not among the sources:
  \<^verbatim>\<open>URL.resolve\<close> of the \<^verbatim>\<open>url\<close> module, \<^verbatim>\<open>supportedReportSet\<close> of \<^verbatim>\<open>collection.ts\<close>
  (a request of its own) and \<^verbatim>\<open>urlEquals\<close> of \<^verbatim>\<open>util/requestHelpers\<close>.
\<close>

record book_env =
  URL_resolve :: "string option \<Rightarrow> jsval option \<Rightarrow> error + string"
  supportedReportSet ::
    "DAVAddressBook \<Rightarrow> fetch_options \<Rightarrow> xbody Exchange list \<Rightarrow> (error + jsval) \<times> xbody Exchange list"
  urlEquals :: "string \<Rightarrow> string \<Rightarrow> bool"

text \<open>A callback that may throw, over a list: the first exception ends the traversal.\<close>

fun traverse :: "('a \<Rightarrow> error + 'b) \<Rightarrow> 'a list \<Rightarrow> error + 'b list" where
  "traverse f [] = Inr []"
| "traverse f (x # xs) =
     (case f x of
        Inl e \<Rightarrow> Inl e
      | Inr y \<Rightarrow> (case traverse f xs of Inl e \<Rightarrow> Inl e | Inr ys \<Rightarrow> Inr (y # ys)))"

text \<open>\<^verbatim>\<open>v.length\<close> of a truthy value.\<close>

fun js_length :: "jsval \<Rightarrow> jsval" where
  "js_length (JStr s) = JNum (int (length s))"
| "js_length (JArr xs) = JNum (int (length xs))"
| "js_length (JObj kvs) = (case map_of kvs ''length'' of None \<Rightarrow> JUndefined | Some v \<Rightarrow> v)"
| "js_length v = JUndefined"

definition lookup_prop :: "(string \<times> jsval) list \<Rightarrow> string \<Rightarrow> jsval" where
  "lookup_prop ps k = (case map_of ps k of None \<Rightarrow> JUndefined | Some v \<Rightarrow> v)"

text \<open>
  Line 52, \<^verbatim>\<open>r.props.displayname && r.props.displayname.length\<close>: reading \<^verbatim>\<open>displayname\<close>
  of a result without \<^verbatim>\<open>props\<close> throws.
\<close>

definition has_displayname :: "DAVResponse \<Rightarrow> error + bool" where
  "has_displayname r =
     (case props r of
        None \<Rightarrow> Inl TypeError
      | Some ps \<Rightarrow>
          Inr (truthy (lookup_prop ps ''displayname'')
               \<and> truthy (js_length (lookup_prop ps ''displayname''))))"

text \<open>Lines 53 to 65, for a result that passed the filter.\<close>

definition to_address_book :: "book_env \<Rightarrow> DAVAccount \<Rightarrow> DAVResponse \<Rightarrow> error + DAVAddressBook" where
  "to_address_book h acct rs =
     (case props rs of
        None \<Rightarrow> Inl TypeError
      | Some ps \<Rightarrow>
          (case URL_resolve h (rootUrl acct) (href rs) of
             Inl e \<Rightarrow> Inl e
           | Inr u \<Rightarrow>
               Inr \<lparr> data = rs, account = acct, url = u,
                     ctag = lookup_prop ps ''getctag'',
                     displayName = lookup_prop ps ''displayname'',
                     resourcetype = lookup_prop ps ''resourcetype'',
                     syncToken = lookup_prop ps ''syncToken'',
                     reports = None \<rparr>))"

text \<open>
  Line 66 and \<^verbatim>\<open>Promise.all\<close>: every address book asks for its report set, in order; the
  first failure is the failure of the whole.
\<close>

fun with_reports ::
  "book_env \<Rightarrow> fetch_options \<Rightarrow> DAVAddressBook list \<Rightarrow> xbody Exchange list
     \<Rightarrow> (error + DAVAddressBook list) \<times> xbody Exchange list" where
  "with_reports h opts [] log = (Inr [], log)"
| "with_reports h opts (addr # addrs) log =
     (case supportedReportSet h addr opts log of
        (r, log') \<Rightarrow>
          (case with_reports h opts addrs log' of
             (rs, log'') \<Rightarrow>
               (case r of
                  Inl e \<Rightarrow> (Inl e, log'')
                | Inr rep \<Rightarrow>
                    (case rs of
                       Inl e \<Rightarrow> (Inl e, log'')
                     | Inr books \<Rightarrow> (Inr (addr\<lparr>reports := Some rep\<rparr> # books), log'')))))"

text \<open>
  \<^verbatim>\<open>fetchAddressBooks\<close> (lines 36 to 68). \<^verbatim>\<open>options\<close> is declared optional and read
  without a check (\<^verbatim>\<open>options.headers\<close>). \<^verbatim>\<open>propfind\<close> is called with three positional
  arguments, so its one parameter is \<^verbatim>\<open>account.homeUrl\<close>.
\<close>

definition fetchAddressBooks ::
  "xbody env \<Rightarrow> book_env \<Rightarrow> DAVAccount \<Rightarrow> fetch_options option \<Rightarrow> xbody Exchange list
     \<Rightarrow> (error + DAVAddressBook list) \<times> xbody Exchange list" where
  "fetchAddressBooks e h acct options log =
     (case options of
        None \<Rightarrow> (Inl TypeError, log)
      | Some opts \<Rightarrow>
          (case propfind e (case homeUrl acct of None \<Rightarrow> PUndefined | Some s \<Rightarrow> PString s) log of
             (Inl err, log') \<Rightarrow> (Inl err, log')
           | (Inr res, log') \<Rightarrow>
               (case traverse (\<lambda>r. map_sum id (\<lambda>b. (r, b)) (has_displayname r)) res of
                  Inl err \<Rightarrow> (Inl err, log')
                | Inr marked \<Rightarrow>
                    (case traverse (to_address_book h acct) (map fst (filter snd marked)) of
                       Inl err \<Rightarrow> (Inl err, log')
                     | Inr addrs \<Rightarrow> with_reports h opts addrs log'))))"

text \<open>
  \<^verbatim>\<open>syncCardDAVAccount\<close> (lines 128 to 138). \<open>sync_result\<close> is what runs once the awaited
  \<^verbatim>\<open>fetchAddressBooks\<close> has settled: a rejection is rethrown; otherwise the list is
  filtered into \<^verbatim>\<open>newAddressBooks\<close>, which is not used, and the object literal of line 137
  is returned.
\<close>

definition sync_result :: "book_env \<Rightarrow> DAVAccount \<Rightarrow> error + DAVAddressBook list \<Rightarrow> error + DAVAccount" where
  "sync_result h acct fetched =
     (case fetched of
        Inl err \<Rightarrow> Inl err
      | Inr books \<Rightarrow>
          let newAddressBooks =
                filter (\<lambda>addr. case addressBooks acct of
                                 None \<Rightarrow> False
                               | Some known \<Rightarrow> list_ex (\<lambda>a. urlEquals h a (url addr)) known) books
          in Inr \<lparr> accountType = Some ''carddav'', credentials = None, homeUrl = None,
                   rootUrl = None, addressBooks = None \<rparr>)"

definition syncCardDAVAccount ::
  "xbody env \<Rightarrow> book_env \<Rightarrow> DAVAccount \<Rightarrow> fetch_options option \<Rightarrow> xbody Exchange list
     \<Rightarrow> (error + DAVAccount) \<times> xbody Exchange list" where
  "syncCardDAVAccount e h acct options log =
     (case fetchAddressBooks e h acct options log of
        (fetched, log') \<Rightarrow> (sync_result h acct fetched, log'))"

section \<open>\<^verbatim>\<open>textFn\<close> (request.ts, lines 87 to 107)\<close>

text \<open>
  xml-js hands \<^verbatim>\<open>textFn\<close> the element under construction; the element points to its
  parent through \<^verbatim>\<open>_parent\<close>, and \<^verbatim>\<open>textFn\<close> writes into that parent in place. The
  objects under construction are shared, so they live in a store: a value is a primitive
  or the address of an object or an array. An object is the list of its properties in
  insertion order, with one entry per name.
\<close>

datatype hval = HUndefined | HNull | HBool bool | HNum int | HStr string | HRef nat

datatype hobj = HObject "(string \<times> hval) list" | HArray "hval list"

type_synonym heap = "hobj list"

definition deref :: "heap \<Rightarrow> nat \<Rightarrow> hobj option" where
  "deref h a = (if a < length h then Some (h ! a) else None)"

definition alloc :: "hobj \<Rightarrow> heap \<Rightarrow> nat \<times> heap" where
  "alloc ob h = (length h, h @ [ob])"

text \<open>\<^verbatim>\<open>o[k] = v\<close>: an existing property keeps its place, a new one goes last.\<close>

fun set_prop :: "string \<Rightarrow> hval \<Rightarrow> (string \<times> hval) list \<Rightarrow> (string \<times> hval) list" where
  "set_prop k v [] = [(k, v)]"
| "set_prop k v ((k', v') # kvs) =
     (if k = k' then (k, v) # kvs else (k', v') # set_prop k v kvs)"

definition get_prop :: "(string \<times> hval) list \<Rightarrow> string \<Rightarrow> hval" where
  "get_prop kvs k = (case map_of kvs k of None \<Rightarrow> HUndefined | Some v \<Rightarrow> v)"

fun htruthy :: "hval \<Rightarrow> bool" where
  "htruthy HUndefined = False"
| "htruthy HNull = False"
| "htruthy (HBool b) = b"
| "htruthy (HNum n) = (n \<noteq> 0)"
| "htruthy (HStr s) = (s \<noteq> [])"
| "htruthy (HRef a) = True"

definition is_array :: "heap \<Rightarrow> hval \<Rightarrow> bool" where
  "is_array h v =
     (case v of
        HRef a \<Rightarrow> (case deref h a of Some (HArray xs) \<Rightarrow> True | _ \<Rightarrow> False)
      | _ \<Rightarrow> False)"

text \<open>
  \<^verbatim>\<open>arrOfKey.length\<close>: \<open>None\<close> is the TypeError of reading a property of \<^verbatim>\<open>undefined\<close> or
  \<^verbatim>\<open>null\<close>. A number or a boolean has no \<^verbatim>\<open>length\<close>; an object has the one it owns.
\<close>

definition length_of :: "heap \<Rightarrow> hval \<Rightarrow> hval option" where
  "length_of h v =
     (case v of
        HUndefined \<Rightarrow> None
      | HNull \<Rightarrow> None
      | HBool b \<Rightarrow> Some HUndefined
      | HNum n \<Rightarrow> Some HUndefined
      | HStr s \<Rightarrow> Some (HNum (int (length s)))
      | HRef a \<Rightarrow>
          (case deref h a of
             None \<Rightarrow> None
           | Some (HArray xs) \<Rightarrow> Some (HNum (int (length xs)))
           | Some (HObject kvs) \<Rightarrow> Some (get_prop kvs ''length'')))"

text \<open>
  \<^verbatim>\<open>arrOfKeyLen > 0\<close>. The length is a number for a string and an array and
  \<^verbatim>\<open>undefined\<close> for a number and a boolean. For an object it is what a child element named
  \<^verbatim>\<open>length\<close> left there: a string that \<^verbatim>\<open>nativeType\<close> did not take for a number, an
  element or an array of at least two entries all compare as NaN, which is not greater.
\<close>

fun gt_zero :: "hval \<Rightarrow> bool" where
  "gt_zero (HNum n) = (0 < n)"
| "gt_zero (HBool b) = b"
| "gt_zero v = False"

text \<open>The property name of \<^verbatim>\<open>arrOfKey.length - 1\<close>.\<close>

fun index_key :: "hval \<Rightarrow> string" where
  "index_key (HNum n) = show_int (n - 1)"
| "index_key v = ''0''"

text \<open>
  \<^verbatim>\<open>Object.keys(o)\<close>: the names that are array indices (a decimal numeral below
  \<open>2^32 - 1\<close>, without a leading zero) in ascending order, then the other names in
  insertion order.
\<close>

definition array_index :: "string \<Rightarrow> bool" where
  "array_index k =
     (k \<noteq> [] \<and> list_all digit k \<and> (k = ''0'' \<or> hd k \<noteq> CHR ''0'')
      \<and> parseInt10 k < 4294967295)"

definition object_keys :: "(string \<times> 'v) list \<Rightarrow> string list" where
  "object_keys kvs =
     sort_key parseInt10 (filter array_index (map fst kvs))
     @ filter (\<lambda>k. \<not> array_index k) (map fst kvs)"

text \<open>
  The body of the \<^verbatim>\<open>try\<close>; \<open>None\<close> is an exception. \<^verbatim>\<open>nativeType\<close> is imported from
  \<^verbatim>\<open>util/nativeType\<close>, which is not among the sources: it is a parameter. xml-js stores
  the enclosing element object under \<^verbatim>\<open>_parent\<close>; without one, \<^verbatim>\<open>Object.keys\<close> throws.
  Writing an index of a string (a primitive) throws in strict mode.
\<close>

definition textFn_try :: "(string \<Rightarrow> hval) \<Rightarrow> string \<Rightarrow> nat \<Rightarrow> heap \<Rightarrow> heap option" where
  "textFn_try nativeType val parentElement h =
     (case deref h parentElement of
        Some (HObject el) \<Rightarrow>
          (case get_prop el ''_parent'' of
             HRef pp \<Rightarrow>
               (case deref h pp of
                  Some (HObject parentOfParent) \<Rightarrow>
                    (if parentOfParent = [] then None
                     else
                       let keyName = last (object_keys parentOfParent);
                           arrOfKey = get_prop parentOfParent keyName
                       in
                       case length_of h arrOfKey of
                         None \<Rightarrow> None
                       | Some arrOfKeyLen \<Rightarrow>
                           if gt_zero arrOfKeyLen then
                             (case arrOfKey of
                                HRef a \<Rightarrow>
                                  (case deref h a of
                                     Some (HArray arr) \<Rightarrow>
                                       Some (h[a := HArray (arr[length arr - 1 := nativeType val])])
                                   | Some (HObject ob) \<Rightarrow>
                                       Some (h[a := HObject
                                              (set_prop (index_key arrOfKeyLen) (nativeType val) ob)])
                                   | None \<Rightarrow> None)
                              | _ \<Rightarrow> None)
                           else
                             Some (h[pp := HObject
                                     (set_prop keyName (nativeType val) parentOfParent)]))
                | _ \<Rightarrow> None)
           | _ \<Rightarrow> None)
      | _ \<Rightarrow> None)"

text \<open>The \<^verbatim>\<open>catch\<close> logs the exception and goes on: the store is as it was.\<close>

definition textFn :: "(string \<Rightarrow> hval) \<Rightarrow> string \<Rightarrow> nat \<Rightarrow> heap \<Rightarrow> heap" where
  "textFn nativeType val parentElement h =
     (case textFn_try nativeType val parentElement h of None \<Rightarrow> h | Some h' \<Rightarrow> h')"

text \<open>
  Modelled from the spec: \<^verbatim>\<open>nativeType\<close> of \<^verbatim>\<open>util/nativeType\<close>, for evaluating \<open>textFn\<close>
  on concrete text. The spec: "boolean literals checked first, then integer pattern (no
  decimal point, optional sign), then floating-point pattern, then date pattern, else
  original string". Floats and dates are not values of the model: of the checks, the
  boolean and the integer one are here.
\<close>

definition nativeType_spec :: "string \<Rightarrow> hval" where
  "nativeType_spec s =
     (if s = ''true'' then HBool True
      else if s = ''false'' then HBool False
      else if s \<noteq> [] \<and> list_all digit s then HNum (parseInt10 s)
      else if s \<noteq> [] \<and> hd s = CHR ''-'' \<and> tl s \<noteq> [] \<and> list_all digit (tl s)
        then HNum (- parseInt10 (tl s))
      else if s \<noteq> [] \<and> hd s = CHR ''+'' \<and> tl s \<noteq> [] \<and> list_all digit (tl s)
        then HNum (parseInt10 (tl s))
      else HStr s)"

section \<open>The parser of xml-js, as \<^verbatim>\<open>davRequest\<close> calls it\<close>

text \<open>
  xml-js (1.6) is a dependency, not part of the sources. This is the tree builder of its
  \<^verbatim>\<open>lib/xml2js.js\<close> (\<^verbatim>\<open>onStartElement\<close>, \<^verbatim>\<open>onText\<close> with \<^verbatim>\<open>addField\<close>,
  \<^verbatim>\<open>onEndElement\<close>) under the options of lines 85 to 115 (\<^verbatim>\<open>compact\<close>, \<^verbatim>\<open>trim\<close>, the
  three callbacks), driven by the events of the tokenizer. It shows the stores on which
  \<^verbatim>\<open>textFn\<close> runs.
\<close>

datatype sax_event = OpenTag string "(string \<times> string) list" | Text string | CloseTag

record builder =
  store :: heap
  currentElement :: nat

definition js_trim :: "string \<Rightarrow> string" where
  "js_trim s = rev (dropWhile space (rev (dropWhile space s)))"

definition push :: "hval \<Rightarrow> hval \<Rightarrow> heap \<Rightarrow> heap" where
  "push arr v h =
     (case arr of
        HRef a \<Rightarrow> (case deref h a of Some (HArray xs) \<Rightarrow> h[a := HArray (xs @ [v])] | _ \<Rightarrow> h)
      | _ \<Rightarrow> h)"

text \<open>
  \<^verbatim>\<open>if (o[k] && !isArray(o[k])) o[k] = [o[k]]\<close>, on the object at address \<open>cur\<close>.
\<close>

definition wrap_single :: "nat \<Rightarrow> string \<Rightarrow> heap \<Rightarrow> heap" where
  "wrap_single cur k h =
     (case deref h cur of
        Some (HObject kvs) \<Rightarrow>
          if htruthy (get_prop kvs k) \<and> \<not> is_array h (get_prop kvs k) then
            (case alloc (HArray [get_prop kvs k]) h of
               (a, h') \<Rightarrow> h'[cur := HObject (set_prop k (HRef a) kvs)])
          else h
      | _ \<Rightarrow> h)"

text \<open>
  \<^verbatim>\<open>if (isArray(o[k])) o[k].push(v); else o[k] = v\<close>, on the object at address \<open>cur\<close>.
\<close>

definition push_or_set :: "nat \<Rightarrow> string \<Rightarrow> hval \<Rightarrow> heap \<Rightarrow> heap" where
  "push_or_set cur k v h =
     (case deref h cur of
        Some (HObject kvs) \<Rightarrow>
          if is_array h (get_prop kvs k) then push (get_prop kvs k) v h
          else h[cur := HObject (set_prop k v kvs)]
      | _ \<Rightarrow> h)"

definition onStartElement ::
  "(string \<Rightarrow> string) \<Rightarrow> string \<Rightarrow> (string \<times> string) list \<Rightarrow> builder \<Rightarrow> builder" where
  "onStartElement camelCase name attrs st =
     (let attrs' = map (\<lambda>(k, v). (k, js_trim v)) (attributesFn attrs);
          name' = xml2js_elementNameFn camelCase name;
          cur = currentElement st;
          (own, h1) =
            (if attrs' = [] then ([], store st)
             else case alloc (HObject (map (\<lambda>(k, v). (k, HStr v)) attrs')) (store st) of
                    (a, h') \<Rightarrow> ([(''_attributes'', HRef a)], h'));
          (el, h2) = alloc (HObject (own @ [(''_parent'', HRef cur)])) h1;
          h3 = push_or_set cur name' (HRef el) (wrap_single cur name' h2)
      in \<lparr> store = h3, currentElement = el \<rparr>)"

definition onText :: "(string \<Rightarrow> hval) \<Rightarrow> string \<Rightarrow> builder \<Rightarrow> builder" where
  "onText nativeType txt st =
     (if js_trim txt = [] then st
      else
        let cur = currentElement st;
            h1 = wrap_single cur ''_text'' (store st);
            h2 = textFn nativeType (js_trim txt) cur h1;
            h3 = push_or_set cur ''_text'' HUndefined h2
        in st\<lparr> store := h3 \<rparr>)"

text \<open>
  \<^verbatim>\<open>onEndElement\<close>: the parent is read from \<^verbatim>\<open>_parent\<close>, \<^verbatim>\<open>_parent\<close> is deleted, and the
  parent is the current element again. Where \<^verbatim>\<open>textFn\<close> has put a primitive under
  \<^verbatim>\<open>_parent\<close> (it does so for a leaf whose name is an array index, which no XML name
  is), xml-js goes on with that primitive for the current element. Such a run is outside
  the model: the address past the end of the store stands for the primitive, and the
  builder takes no further event.
\<close>

definition onEndElement :: "builder \<Rightarrow> builder" where
  "onEndElement st =
     (case deref (store st) (currentElement st) of
        Some (HObject kvs) \<Rightarrow>
          \<lparr> store = (store st)[currentElement st :=
                       HObject (filter (\<lambda>(k, v). k \<noteq> ''_parent'') kvs)],
            currentElement =
              (case get_prop kvs ''_parent'' of
                 HRef parent \<Rightarrow> parent
               | _ \<Rightarrow> length (store st)) \<rparr>
      | _ \<Rightarrow> st)"

definition on_event :: "(string \<Rightarrow> string) \<Rightarrow> (string \<Rightarrow> hval) \<Rightarrow> builder \<Rightarrow> sax_event \<Rightarrow> builder" where
  "on_event camelCase nativeType st ev =
     (if deref (store st) (currentElement st) = None then st
      else case ev of
             OpenTag name attrs \<Rightarrow> onStartElement camelCase name attrs st
           | Text txt \<Rightarrow> onText nativeType txt st
           | CloseTag \<Rightarrow> onEndElement st)"

text \<open>The tree is read off the store once the events are over; \<open>n\<close> bounds its depth.\<close>

fun reify :: "nat \<Rightarrow> heap \<Rightarrow> hval \<Rightarrow> jsval" where
  "reify n h HUndefined = JUndefined"
| "reify n h HNull = JNull"
| "reify n h (HBool b) = JBool b"
| "reify n h (HNum i) = JNum i"
| "reify n h (HStr s) = JStr s"
| "reify 0 h (HRef a) = JUndefined"
| "reify (Suc n) h (HRef a) =
     (case deref h a of
        None \<Rightarrow> JUndefined
      | Some (HArray xs) \<Rightarrow> JArr (map (reify n h) xs)
      | Some (HObject kvs) \<Rightarrow> JObj (map (\<lambda>(k, v). (k, reify n h v)) kvs))"

definition xml2js_events :: "(string \<Rightarrow> string) \<Rightarrow> (string \<Rightarrow> hval) \<Rightarrow> sax_event list \<Rightarrow> jsval" where
  "xml2js_events camelCase nativeType evs =
     (let st = foldl (on_event camelCase nativeType) \<lparr> store = [HObject []], currentElement = 0 \<rparr> evs
      in reify (length (store st)) (store st) (HRef 0))"

section \<open>The status line, as the spec words it\<close>


section \<open>A concrete setting\<close>

text \<open>
  A server that answers the url \<^verbatim>\<open>/plain\<close> with plain text, \<^verbatim>\<open>/foo\<close> with an XML
  document that is no multistatus, \<^verbatim>\<open>/broken\<close> with text that is no XML, and every other
  url with a multistatus document; a parser that knows these documents; and an account
  with credentials.
\<close>

definition example_plain :: HttpResponse where
  "example_plain =
     \<lparr> res_ok = True, res_status = 200, res_statusText = ''OK'', res_url = ''/plain'',
       res_content_type = Some ''text/plain'', res_text = ''hello'' \<rparr>"

definition example_multistatus :: HttpResponse where
  "example_multistatus =
     \<lparr> res_ok = True, res_status = 207, res_statusText = ''Multi-Status'', res_url = ''/books/'',
       res_content_type = Some ''application/xml; charset=utf-8'',
       res_text = ''<multistatus><response><href>/books/a/</href></response></multistatus>'' \<rparr>"

definition example_foo :: HttpResponse where
  "example_foo =
     \<lparr> res_ok = True, res_status = 200, res_statusText = ''OK'', res_url = ''/foo'',
       res_content_type = Some ''application/xml'', res_text = ''<foo/>'' \<rparr>"

definition example_broken :: HttpResponse where
  "example_broken =
     \<lparr> res_ok = True, res_status = 200, res_statusText = ''OK'', res_url = ''/broken'',
       res_content_type = Some ''application/xml'', res_text = ''<foo>'' \<rparr>"

definition example_tree :: jsval where
  "example_tree =
     JObj [(''multistatus'', JObj [(''response'', JObj [(''href'', JStr ''/books/a/'')])])]"

definition example_env :: "xbody env" where
  "example_env =
     \<lparr> client = (\<lambda>ex. if ex_url ex = Some ''/plain'' then Inr example_plain
                        else if ex_url ex = Some ''/foo'' then Inr example_foo
                        else if ex_url ex = Some ''/broken'' then Inr example_broken
                        else Inr example_multistatus),
       js2xml = js2xml_compact,
       xml2js = (\<lambda>s. if s = res_text example_multistatus then Inr example_tree
                       else if s = ''<foo/>'' then Inr (JObj [(''foo'', JObj [])])
                       else Inl ParseError),
       cleanupFalsy = (\<lambda>kvs. concat (map (\<lambda>(k, v). case v of None \<Rightarrow> [] | Some x \<Rightarrow> [(k, x)]) kvs)),
       dav_short = ''d'',
       dav_attributes = [(''xmlns:d'', ''DAV:'')] \<rparr>"

definition example_book_env :: book_env where
  "example_book_env =
     \<lparr> URL_resolve = (\<lambda>from to. case to of Some (JStr s) \<Rightarrow> Inr s | _ \<Rightarrow> Inl TypeError),
       supportedReportSet = (\<lambda>addr opts log. (Inr (JArr []), log)),
       urlEquals = (\<lambda>a b. a = b) \<rparr>"

definition example_credentials :: DAVCredentials where
  "example_credentials = \<lparr> username = ''user'', password = ''secret'' \<rparr>"

definition example_account :: DAVAccount where
  "example_account =
     \<lparr> accountType = Some ''carddav'', credentials = Some example_credentials,
       homeUrl = Some ''/books/'', rootUrl = Some ''/'', addressBooks = Some [''/books/a/''] \<rparr>"

definition example_init :: "xbody DAVRequest" where
  "example_init =
     \<lparr> headers = None,
       body = [(''propfind'', XElem None [(''prop'', XElem None [(''displayname'', XElem None [])])])],
       namespace = Some ''d'', method' = ''PROPFIND'', attributes = None \<rparr>"

text \<open>
  A request body five levels deep, with a prefixed name and a name that ends in a colon.
\<close>

definition example_deep_body :: xbody where
  "example_deep_body =
     [(''propfind'', XElem (Some [(''xmlns:d'', ''DAV:'')])
        [(''prop'', XElem None
           [(''displayname'', XEmpty),
            (''c:getctag'', XEmpty),
            (''resourcetype'', XElem None
               [(''collection'', XElem None
                  [(''kind'', XElem None [(''x:'', XEmpty)])])])])])]"


section \<open>Properties of the matcher\<close>

lemma backtrack_Some:
  "f k = Some r \<Longrightarrow> 0 < k \<Longrightarrow> k \<le> n \<Longrightarrow> (\<And>j. k < j \<Longrightarrow> j \<le> n \<Longrightarrow> f j = None) \<Longrightarrow> backtrack f n = Some r"
proof (induction n)
  case 0 then show ?case by simp
next
  case (Suc n)
  show ?case
  proof (cases "k = Suc n")
    case True with Suc.prems show ?thesis by simp
  next
    case False
    with Suc.prems have "f (Suc n) = None" "k \<le> n" by auto
    with Suc show ?thesis by simp
  qed
qed

lemma backtrack_None:
  "(\<And>j. 0 < j \<Longrightarrow> j \<le> n \<Longrightarrow> f j = None) \<Longrightarrow> backtrack f n = None"
  by (induction n) auto

lemma backtrack_SomeD:
  "backtrack f n = Some r \<Longrightarrow> \<exists>k. 0 < k \<and> k \<le> n \<and> f k = Some r"
proof (induction n)
  case 0 then show ?case by simp
next
  case (Suc n)
  show ?case
  proof (cases "f (Suc n)")
    case None
    with Suc.prems have "backtrack f n = Some r" by simp
    from Suc.IH[OF this] obtain k where k: "0 < k" "k \<le> n" "f k = Some r" by blast
    then show ?thesis by (intro exI[of _ k]) auto
  next
    case (Some a)
    with Suc.prems have "a = r" by simp
    with Some show ?thesis by (intro exI[of _ "Suc n"]) auto
  qed
qed

lemma backtrack_exists:
  "0 < k \<Longrightarrow> k \<le> n \<Longrightarrow> f k \<noteq> None \<Longrightarrow> backtrack f n \<noteq> None"
  using backtrack_None backtrack_SomeD
  by (induction n) (auto simp: le_Suc_eq split: option.splits)

lemma rmatch_One:
  "rmatch (One p # is) s =
     (case s of [] \<Rightarrow> None
      | c # cs \<Rightarrow> if p c then map_option (\<lambda>(gs, r). ([c] # gs, r)) (rmatch is cs) else None)"
  by simp


lemma rmatch_End:
  "rmatch (End # is) s = (if s = [] then map_option (\<lambda>(gs, r). ([] # gs, r)) (rmatch is s) else None)"
  by simp

lemma length_takeWhile_append:
  "\<forall>c\<in>set p. P c \<Longrightarrow> length (takeWhile P (p @ l)) = length p + length (takeWhile P l)"
  by (induction p) auto

lemma take_le_takeWhile:
  "k \<le> length (takeWhile P s) \<Longrightarrow> \<forall>c\<in>set (take k s). P c"
proof (induction s arbitrary: k)
  case Nil then show ?case by simp
next
  case (Cons a s)
  then show ?case by (cases k) (auto split: if_splits)
qed

lemma replace_prefix_last_colon:
  assumes "p \<noteq> []" "\<forall>c\<in>set p. dot c" "CHR '':'' \<notin> set l"
  shows "replace_prefix (p @ CHR '':'' # l) = l"
proof -
  let ?s = "p @ CHR '':'' # l"
  let ?f = "\<lambda>k. map_option (\<lambda>(gs, r). (take k ?s # gs, r)) (rmatch [One colon] (drop k ?s))"
  have dc: "dot (CHR '':'')" by (simp add: dot_def line_terminator_def)
  have n: "length p < length (takeWhile dot ?s)"
    using assms(2) dc by (simp add: length_takeWhile_append)
  have fk: "?f (length p) = Some ([p, '':''], l)"
    by (simp add: colon_def)
  have later: "?f j = None" if "length p < j" for j
  proof -
    have "drop j ?s = drop (j - Suc (length p)) l" using that by (simp add: drop_Cons')
    moreover have "\<forall>c \<in> set (drop (j - Suc (length p)) l). c \<noteq> CHR '':''"
      using assms(3) by (metis in_set_dropD)
    ultimately show ?thesis
      by (cases "drop (j - Suc (length p)) l") (auto simp: colon_def)
  qed
  have "backtrack ?f (length (takeWhile dot ?s)) = Some ([p, '':''], l)"
    by (rule backtrack_Some[where k = "length p"]) (use fk later assms(1) n in auto)
  then show ?thesis by (simp add: replace_prefix_def)
qed

lemma replace_prefix_unchanged:
  assumes "CHR '':'' \<notin> set (tl name)"
  shows "replace_prefix name = name"
proof -
  let ?f = "\<lambda>k. map_option (\<lambda>(gs, r). (take k name # gs, r)) (rmatch [One colon] (drop k name))"
  have "?f j = None" if "0 < j" for j
  proof -
    have "set (drop j name) \<subseteq> set (tl name)"
      using that by (metis Suc_pred' drop_Suc set_drop_subset)
    with assms have "\<forall>c \<in> set (drop j name). c \<noteq> CHR '':''" by auto
    then show ?thesis by (cases "drop j name") (auto simp: colon_def)
  qed
  then have "backtrack ?f (length (takeWhile dot name)) = None"
    by (intro backtrack_None) auto
  then show ?thesis by (simp add: replace_prefix_def)
qed

lemma has_namespace_iff:
  "has_namespace name \<longleftrightarrow>
     (\<exists>p l. name = p @ CHR '':'' # l \<and> p \<noteq> [] \<and> (\<forall>c\<in>set p. dot c) \<and> l \<noteq> [] \<and> dot (hd l))"
  (is "?L \<longleftrightarrow> ?R")
proof
  let ?g = "\<lambda>t k. map_option (\<lambda>(gs, r). (take k t # gs, r)) (rmatch [] (drop k t))"
  let ?f = "\<lambda>k. map_option (\<lambda>(gs, r). (take k name # gs, r)) (rmatch [One colon, Many dot] (drop k name))"
  have L: "?L \<longleftrightarrow> backtrack ?f (length (takeWhile dot name)) \<noteq> None"
    by (simp add: has_namespace_def)
  {
    assume ?R
    then obtain p l where pl: "name = p @ CHR '':'' # l" "p \<noteq> []" "\<forall>c\<in>set p. dot c" "l \<noteq> []" "dot (hd l)"
      by blast
    have dc: "dot (CHR '':'')" by (simp add: dot_def line_terminator_def)
    have n: "length p \<le> length (takeWhile dot name)"
      using pl(1,3) by (simp add: length_takeWhile_append)
    have "0 < length (takeWhile dot l)" using pl(4,5) by (cases l) auto
    then have "backtrack (?g l) (length (takeWhile dot l)) \<noteq> None"
      by (intro backtrack_exists[where k = "length (takeWhile dot l)"]) auto
    then have "?f (length p) \<noteq> None"
      using pl(1) by (simp add: colon_def)
    then have "backtrack ?f (length (takeWhile dot name)) \<noteq> None"
      using pl(2) n by (intro backtrack_exists[where k = "length p"]) auto
    then show ?L using L by simp
  }
  {
    assume ?L
    then obtain r where "backtrack ?f (length (takeWhile dot name)) = Some r" using L by auto
    from backtrack_SomeD[OF this] obtain k where
      k: "0 < k" "k \<le> length (takeWhile dot name)" "?f k = Some r" by blast
    from k(3) obtain c cs where d: "drop k name = c # cs" "colon c"
      and m: "rmatch [Many dot] cs \<noteq> None"
      by (cases "drop k name") (auto split: if_splits)
    from m have "takeWhile dot cs \<noteq> []"
      by (cases "takeWhile dot cs") auto
    then have cs: "cs \<noteq> []" "dot (hd cs)" by (cases cs; auto split: if_splits)+
    have "name = take k name @ CHR '':'' # cs"
      using d by (metis append_take_drop_id colon_def)
    moreover have "take k name \<noteq> []" using k(1) d by (cases name) auto
    moreover have "\<forall>c\<in>set (take k name). dot c" using k(2) by (rule take_le_takeWhile)
    ultimately show ?R using cs by blast
  }
qed












lemma dot_colon: "dot (CHR '':'')"
  by (simp add: dot_def line_terminator_def)

lemma no_colon_no_namespace:
  assumes "CHR '':'' \<notin> set name"
  shows "\<not> has_namespace name"
  using assms by (auto simp: has_namespace_iff)

lemma edge_colon_no_namespace:
  assumes "CHR '':'' \<notin> set l"
  shows "\<not> has_namespace (l @ '':'')" and "\<not> has_namespace (CHR '':'' # l)"
proof -
  show "\<not> has_namespace (l @ '':'')"
  proof
    assume "has_namespace (l @ '':'')"
    then obtain p t where pt: "l @ '':'' = p @ CHR '':'' # t" "t \<noteq> []"
      by (auto simp: has_namespace_iff)
    have "length (l @ '':'') = length (p @ CHR '':'' # t)" using pt(1) by simp
    then have "length p < length l" using pt(2) by (cases t) auto
    then have "l ! length p = CHR '':''"
      using pt(1) by (metis nth_append nth_append_length)
    with \<open>length p < length l\<close> assms show False by (metis nth_mem)
  qed
  show "\<not> has_namespace (CHR '':'' # l)"
  proof
    assume "has_namespace (CHR '':'' # l)"
    then obtain p t where pt: "CHR '':'' # l = p @ CHR '':'' # t" "p \<noteq> []"
      by (auto simp: has_namespace_iff)
    then obtain p' where "p = CHR '':'' # p'" by (cases p) auto
    with pt(1) have "l = p' @ CHR '':'' # t" by simp
    with assms show False by simp
  qed
qed

section \<open>The request orchestrator\<close>








text \<open>
  Claim C9. A call of \<open>davRequest\<close>, \<open>createObject\<close>, \<open>updateObject\<close> or \<open>deleteObject\<close>
  without an account, or with an account without credentials, throws a TypeError and
  performs no exchange: the log is what it was. This holds whatever \<^verbatim>\<open>convertIncoming\<close>
  and \<^verbatim>\<open>parseOutgoing\<close> are.
\<close>

theorem credentials_required:
  assumes "acct = None \<or> (\<exists>a. acct = Some a \<and> credentials a = None)"
  shows "davRequest e u i acct ci po log = (Inl TypeError, log)
       \<and> createObject e' u d hs acct log' = (Inl TypeError, log')
       \<and> updateObject e' u d etag hs acct log' = (Inl TypeError, log')
       \<and> deleteObject e' u etag hs acct log' = (Inl TypeError, log')"
  using assms
  by (auto simp: davRequest_def createObject_def updateObject_def deleteObject_def)

theorem credentials_required_witness:
  "(Some (example_account\<lparr>credentials := None\<rparr>) = None
      \<or> (\<exists>a. Some (example_account\<lparr>credentials := None\<rparr>) = Some a \<and> credentials a = None))
   \<and> davRequest example_env (Some ''/books/'') example_init
        (Some (example_account\<lparr>credentials := None\<rparr>)) (Some False) (Some False) []
       = (Inl TypeError, [])
   \<and> davRequest example_env (Some ''/books/a.vcf'') example_init None None None []
       = (Inl TypeError, [])
   \<and> createObject example_env (Some ''/books/a.vcf'') [] None None [] = (Inl TypeError, [])
   \<and> updateObject example_env (Some ''/books/a.vcf'') [] (Some ''etag'') None None []
       = (Inl TypeError, [])
   \<and> deleteObject example_env (Some ''/books/a.vcf'') (Some ''etag'') None None []
       = (Inl TypeError, [])"
proof -
  have h1: "Some (example_account\<lparr>credentials := None\<rparr>) = None
      \<or> (\<exists>a. Some (example_account\<lparr>credentials := None\<rparr>) = Some a \<and> credentials a = None)"
    by simp
  have h2: "(None :: DAVAccount option) = None \<or> (\<exists>a. None = Some a \<and> credentials a = None)"
    by simp
  show ?thesis
    using h1
      credentials_required [OF h1, where e = example_env and u = "Some ''/books/''"
        and i = example_init and ci = "Some False" and po = "Some False" and log = "[]"
        and e' = example_env and d = "[]" and hs = None and log' = "[]" and etag = None]
      credentials_required [OF h2, where e = example_env and u = "Some ''/books/a.vcf''"
        and i = example_init and ci = None and po = None and log = "[]"
        and e' = example_env and d = "[]" and hs = None and log' = "[]" and etag = "Some ''etag''"]
    by simp
qed

section \<open>Multistatus normalization\<close>









text \<open>
  The parser on a multistatus document with two responses: the entries of the tree are the
  response elements, in document order.
\<close>

lemma ev_two_responses:
  "xml2js_events camelCase_spec nativeType_spec
     [OpenTag ''d:multistatus'' [(''xmlns:d'', ''DAV:'')],
        OpenTag ''d:response'' [], OpenTag ''d:href'' [], Text ''/a'', CloseTag, CloseTag,
        OpenTag ''d:response'' [], OpenTag ''d:href'' [], Text ''/b'', CloseTag, CloseTag,
      CloseTag]
   = JObj [(''multistatus'',
       JObj [(''_attributes'', JObj [(''xmlns:d'', JStr ''DAV:'')]),
             (''response'', JArr [JObj [(''href'', JStr ''/a'')], JObj [(''href'', JStr ''/b'')]])])]"
  by code_simp













section \<open>Element names and attributes\<close>

text \<open>
  The writer applies \<^verbatim>\<open>elementNameFn\<close> to the name of every element it writes, whatever
  the depth: for a function that keeps a name non-empty, the document is that of the
  renamed tree written without any renaming.
\<close>

lemma elementNameFn_nonempty: "name \<noteq> [] \<Longrightarrow> js2xml_elementNameFn ns name \<noteq> []"
  by (simp add: js2xml_elementNameFn_def split: option.splits)

lemma writeElementCompact_rename:
  assumes f: "\<And>k. k \<noteq> [] \<Longrightarrow> f k \<noteq> []"
  shows "named n \<Longrightarrow> name \<noteq> [] \<Longrightarrow>
    writeElementCompact f n name depth
      = writeElementCompact (\<lambda>k. k) (rename_elements f n) (f name) depth"
proof (induction n arbitrary: name depth)
  case XEmpty
  then show ?case by simp
next
  case (XElem attrs kids)
  have "map (\<lambda>(k, n). writeIndentation (depth + 1) False @ writeElementCompact f n k (depth + 1)) kids
     = map (\<lambda>(k, n). writeIndentation (depth + 1) False @ writeElementCompact (\<lambda>k. k) n k (depth + 1))
         (map (\<lambda>(k, n). (f k, rename_elements f n)) kids)"
    using XElem by (auto simp: list_all_iff comp_def intro!: map_cong) 
  then have inner: "concat (map (\<lambda>(k, n). writeIndentation (depth + 1) False @ writeElementCompact f n k (depth + 1)) kids)
     = concat (map (\<lambda>(k, n). writeIndentation (depth + 1) False @ writeElementCompact (\<lambda>k. k) n k (depth + 1))
         (map (\<lambda>(k, n). (f k, rename_elements f n)) kids))"
    by (rule arg_cong)
  show ?case
    apply (simp only: writeElementCompact.simps rename_elements.simps Let_def inner)
    using XElem.prems f[of name] by simp
qed

lemma js2xml_compact_rename:
  assumes f: "\<And>k. k \<noteq> [] \<Longrightarrow> f k \<noteq> []" and "named_body b"
  shows "js2xml_compact f b a = js2xml_compact (\<lambda>k. k) (rename_body f b) a"
proof -
  have "map (\<lambda>(k, n). writeIndentation 0 False @ writeElementCompact f n k 0) b
     = map (\<lambda>(k, n). writeIndentation 0 False @ writeElementCompact (\<lambda>k. k) n k 0)
         (map (\<lambda>(k, n). (f k, rename_elements f n)) b)"
    using assms(2) writeElementCompact_rename[OF f]
    by (auto simp: named_body_def list_all_iff comp_def intro!: map_cong)
  then have "concat (map (\<lambda>(k, n). writeIndentation 0 False @ writeElementCompact f n k 0) b)
     = concat (map (\<lambda>(k, n). writeIndentation 0 False @ writeElementCompact (\<lambda>k. k) n k 0)
         (map (\<lambda>(k, n). (f k, rename_elements f n)) b))"
    by (rule arg_cong)
  then show ?thesis by (simp only: js2xml_compact_def rename_body_def)
qed

text \<open>
  Claim C5, as amended. For every request body whose element names are not empty, the
  document written is the one the writer gives, with no renaming, for the body in which
  every element name, at every nesting depth, is replaced by its emitted name. The
  emitted name: with a non-empty default namespace, a name without a colon is emitted as
  the namespace, a colon and the name, and so is a name whose only colon is its first or
  its last character. A name with a colon that has a character before it and a character
  after it (neither a line break) is emitted unchanged. Without a namespace, or with the
  empty string for one, every name is emitted unchanged. The body
  \<^verbatim>\<open>{ propfind: { prop: { displayname: {} } } }\<close> with namespace \<^verbatim>\<open>d\<close> is written as the
  declaration and the three elements \<^verbatim>\<open>d:propfind\<close>, \<^verbatim>\<open>d:prop\<close>, \<^verbatim>\<open>d:displayname\<close>, one tag
  a line, indented by two spaces a level.
\<close>

theorem elementNameFn_qualifies:
  "(named_body b \<longrightarrow>
      js2xml_compact (js2xml_elementNameFn nso) b a
        = js2xml_compact (\<lambda>name. name) (rename_body (js2xml_elementNameFn nso) b) a)
   \<and> (ns \<noteq> [] \<and> CHR '':'' \<notin> set name \<longrightarrow>
      js2xml_elementNameFn (Some ns) name = ns @ '':'' @ name)
   \<and> (ns \<noteq> [] \<and> CHR '':'' \<notin> set l \<longrightarrow>
      js2xml_elementNameFn (Some ns) (l @ '':'') = ns @ '':'' @ l @ '':''
      \<and> js2xml_elementNameFn (Some ns) ('':'' @ l) = ns @ ''::'' @ l)
   \<and> (p \<noteq> [] \<and> list_all (\<lambda>c. \<not> line_terminator c) p \<and> t \<noteq> [] \<and> \<not> line_terminator (hd t) \<longrightarrow>
      js2xml_elementNameFn nso (p @ '':'' @ t) = p @ '':'' @ t)
   \<and> js2xml_elementNameFn None name = name
   \<and> js2xml_elementNameFn (Some []) name = name
   \<and> js2xml_compact (js2xml_elementNameFn (Some ''d''))
        [(''propfind'', XElem None [(''prop'', XElem None [(''displayname'', XElem None [])])])] None
      = xml_declaration @ [CHR 0x0A]
        @ ''<d:propfind>'' @ [CHR 0x0A]
        @ ''  <d:prop>'' @ [CHR 0x0A]
        @ ''    <d:displayname/>'' @ [CHR 0x0A]
        @ ''  </d:prop>'' @ [CHR 0x0A]
        @ ''</d:propfind>''"
proof (intro conjI impI)
  assume "named_body b"
  then show "js2xml_compact (js2xml_elementNameFn nso) b a
        = js2xml_compact (\<lambda>name. name) (rename_body (js2xml_elementNameFn nso) b) a"
    by (intro js2xml_compact_rename elementNameFn_nonempty)
next
  assume "ns \<noteq> [] \<and> CHR '':'' \<notin> set name"
  then show "js2xml_elementNameFn (Some ns) name = ns @ '':'' @ name"
    using no_colon_no_namespace by (simp add: js2xml_elementNameFn_def)
next
  assume a: "ns \<noteq> [] \<and> CHR '':'' \<notin> set l"
  then show "js2xml_elementNameFn (Some ns) (l @ '':'') = ns @ '':'' @ l @ '':''"
    using edge_colon_no_namespace(1) by (simp add: js2xml_elementNameFn_def)
  from a show "js2xml_elementNameFn (Some ns) ('':'' @ l) = ns @ ''::'' @ l"
    using edge_colon_no_namespace(2) by (simp add: js2xml_elementNameFn_def)
next
  assume a: "p \<noteq> [] \<and> list_all (\<lambda>c. \<not> line_terminator c) p \<and> t \<noteq> [] \<and> \<not> line_terminator (hd t)"
  then have "has_namespace (p @ '':'' @ t)"
    unfolding has_namespace_iff
    by (intro exI[of _ p] exI[of _ t]) (simp add: dot_def list_all_iff)
  then show "js2xml_elementNameFn nso (p @ '':'' @ t) = p @ '':'' @ t"
    by (simp add: js2xml_elementNameFn_def split: option.splits)
next
  show "js2xml_elementNameFn None name = name"
    by (simp add: js2xml_elementNameFn_def)
  show "js2xml_elementNameFn (Some []) name = name"
    by (simp add: js2xml_elementNameFn_def)
next
  have n1: "js2xml_elementNameFn (Some ''d'') ''propfind'' = ''d:propfind''"
    using no_colon_no_namespace[of "''propfind''"] by (simp add: js2xml_elementNameFn_def)
  have n2: "js2xml_elementNameFn (Some ''d'') ''prop'' = ''d:prop''"
    using no_colon_no_namespace[of "''prop''"] by (simp add: js2xml_elementNameFn_def)
  have n3: "js2xml_elementNameFn (Some ''d'') ''displayname'' = ''d:displayname''"
    using no_colon_no_namespace[of "''displayname''"] by (simp add: js2xml_elementNameFn_def)
  show "js2xml_compact (js2xml_elementNameFn (Some ''d''))
        [(''propfind'', XElem None [(''prop'', XElem None [(''displayname'', XElem None [])])])] None
      = xml_declaration @ [CHR 0x0A]
        @ ''<d:propfind>'' @ [CHR 0x0A]
        @ ''  <d:prop>'' @ [CHR 0x0A]
        @ ''    <d:displayname/>'' @ [CHR 0x0A]
        @ ''  </d:prop>'' @ [CHR 0x0A]
        @ ''</d:propfind>''"
    by (simp add: js2xml_compact_def writeIndentation_def n1 n2 n3 numeral_eq_Suc)
qed

theorem elementNameFn_qualifies_witness:
  "named_body example_deep_body
   \<and> rename_body (js2xml_elementNameFn (Some ''d'')) example_deep_body
      = [(''d:propfind'', XElem (Some [(''xmlns:d'', ''DAV:'')])
          [(''d:prop'', XElem None
             [(''d:displayname'', XEmpty),
              (''c:getctag'', XEmpty),
              (''d:resourcetype'', XElem None
                 [(''d:collection'', XElem None
                    [(''d:kind'', XElem None [(''d:x:'', XEmpty)])])])])])]
   \<and> js2xml_compact (js2xml_elementNameFn (Some ''d'')) example_deep_body None
      = xml_declaration @ [CHR 0x0A]
        @ ''<d:propfind xmlns:d='' @ [CHR 0x22] @ ''DAV:'' @ [CHR 0x22] @ ''>'' @ [CHR 0x0A]
        @ ''  <d:prop>'' @ [CHR 0x0A]
        @ ''    <d:displayname/>'' @ [CHR 0x0A]
        @ ''    <c:getctag/>'' @ [CHR 0x0A]
        @ ''    <d:resourcetype>'' @ [CHR 0x0A]
        @ ''      <d:collection>'' @ [CHR 0x0A]
        @ ''        <d:kind>'' @ [CHR 0x0A]
        @ ''          <d:x:/>'' @ [CHR 0x0A]
        @ ''        </d:kind>'' @ [CHR 0x0A]
        @ ''      </d:collection>'' @ [CHR 0x0A]
        @ ''    </d:resourcetype>'' @ [CHR 0x0A]
        @ ''  </d:prop>'' @ [CHR 0x0A]
        @ ''</d:propfind>''
   \<and> (''d'' \<noteq> [] \<and> CHR '':'' \<notin> set ''prop'')
   \<and> js2xml_elementNameFn (Some ''d'') ''prop'' = ''d:prop''
   \<and> (''d'' \<noteq> [] \<and> CHR '':'' \<notin> set ''x'')
   \<and> js2xml_elementNameFn (Some ''d'') ''x:'' = ''d:x:''
   \<and> js2xml_elementNameFn (Some ''d'') '':x'' = ''d::x''
   \<and> (''c'' \<noteq> [] \<and> list_all (\<lambda>c. \<not> line_terminator c) ''c'' \<and> ''getctag'' \<noteq> []
        \<and> \<not> line_terminator (hd ''getctag''))
   \<and> js2xml_elementNameFn (Some ''d'') ''c:getctag'' = ''c:getctag''"
proof -
  have nb: "named_body example_deep_body"
    by (simp add: named_body_def example_deep_body_def)
  have rn: "rename_body (js2xml_elementNameFn (Some ''d'')) example_deep_body
      = [(''d:propfind'', XElem (Some [(''xmlns:d'', ''DAV:'')])
          [(''d:prop'', XElem None
             [(''d:displayname'', XEmpty),
              (''c:getctag'', XEmpty),
              (''d:resourcetype'', XElem None
                 [(''d:collection'', XElem None
                    [(''d:kind'', XElem None [(''d:x:'', XEmpty)])])])])])]"
    by code_simp
  have doc: "js2xml_compact (\<lambda>name. name)
        [(''d:propfind'', XElem (Some [(''xmlns:d'', ''DAV:'')])
          [(''d:prop'', XElem None
             [(''d:displayname'', XEmpty),
              (''c:getctag'', XEmpty),
              (''d:resourcetype'', XElem None
                 [(''d:collection'', XElem None
                    [(''d:kind'', XElem None [(''d:x:'', XEmpty)])])])])])] None
      = xml_declaration @ [CHR 0x0A]
        @ ''<d:propfind xmlns:d='' @ [CHR 0x22] @ ''DAV:'' @ [CHR 0x22] @ ''>'' @ [CHR 0x0A]
        @ ''  <d:prop>'' @ [CHR 0x0A]
        @ ''    <d:displayname/>'' @ [CHR 0x0A]
        @ ''    <c:getctag/>'' @ [CHR 0x0A]
        @ ''    <d:resourcetype>'' @ [CHR 0x0A]
        @ ''      <d:collection>'' @ [CHR 0x0A]
        @ ''        <d:kind>'' @ [CHR 0x0A]
        @ ''          <d:x:/>'' @ [CHR 0x0A]
        @ ''        </d:kind>'' @ [CHR 0x0A]
        @ ''      </d:collection>'' @ [CHR 0x0A]
        @ ''    </d:resourcetype>'' @ [CHR 0x0A]
        @ ''  </d:prop>'' @ [CHR 0x0A]
        @ ''</d:propfind>''"
    by code_simp
  from elementNameFn_qualifies[where b = example_deep_body and nso = "Some ''d''" and a = None
      and ns = "''d''" and name = "''prop''" and l = "''x''" and p = "''c''" and t = "''getctag''"]
  show ?thesis
    using nb by (simp add: rn doc line_terminator_def)
qed

text \<open>
  The claim as stated fails: the name \<^verbatim>\<open>x:\<close> contains a colon and is not emitted
  unchanged; and the empty string, given for the namespace, qualifies nothing.
\<close>

theorem elementNameFn_trailing_colon:
  "js2xml_elementNameFn (Some ''d'') ''x:'' = ''d:x:''
   \<and> js2xml_elementNameFn (Some []) ''x'' = ''x''"
  by (simp add: js2xml_elementNameFn_def has_namespace_def dot_def line_terminator_def colon_def)

text \<open>
  Claim C6, as amended. The incoming name normalizer removes everything up to and
  including the last colon of the name, provided a character stands before that colon
  (and no line break before it), and hands the rest to \<^verbatim>\<open>camelCase\<close>; a name without a
  colon after its first character goes to \<^verbatim>\<open>camelCase\<close> whole.
\<close>

theorem elementNameFn_strips_through_last_colon:
  "(p \<noteq> [] \<and> list_all (\<lambda>c. \<not> line_terminator c) p \<and> CHR '':'' \<notin> set l \<longrightarrow>
      xml2js_elementNameFn camelCase (p @ '':'' @ l) = camelCase l)
   \<and> (CHR '':'' \<notin> set (tl name) \<longrightarrow> xml2js_elementNameFn camelCase name = camelCase name)"
proof (intro conjI impI)
  assume "p \<noteq> [] \<and> list_all (\<lambda>c. \<not> line_terminator c) p \<and> CHR '':'' \<notin> set l"
  then have "replace_prefix (p @ CHR '':'' # l) = l"
    by (intro replace_prefix_last_colon) (auto simp: dot_def list_all_iff)
  then show "xml2js_elementNameFn camelCase (p @ '':'' @ l) = camelCase l"
    by (simp add: xml2js_elementNameFn_def)
next
  assume "CHR '':'' \<notin> set (tl name)"
  then show "xml2js_elementNameFn camelCase name = camelCase name"
    by (simp add: xml2js_elementNameFn_def replace_prefix_unchanged)
qed

theorem elementNameFn_strips_through_last_colon_witness:
  "(''a:b'' \<noteq> [] \<and> list_all (\<lambda>c. \<not> line_terminator c) ''a:b'' \<and> CHR '':'' \<notin> set ''sync-token'')
   \<and> xml2js_elementNameFn camelCase_spec ''a:b:sync-token'' = ''syncToken''
   \<and> CHR '':'' \<notin> set (tl '':getctag'')
   \<and> xml2js_elementNameFn camelCase_spec '':getctag'' = '':getctag''"
  using elementNameFn_strips_through_last_colon[of "''a:b''" "''sync-token''" camelCase_spec "'':getctag''"]
  by (simp add: line_terminator_def upper_char_def)

text \<open>
  The claim as stated fails: of \<^verbatim>\<open>a:b:c\<close> the two segments \<^verbatim>\<open>a:b:\<close> are removed, not
  only \<^verbatim>\<open>a:\<close>.
\<close>

theorem elementNameFn_two_colons:
  "replace_prefix ''a:b:c'' = ''c''
   \<and> xml2js_elementNameFn camelCase_spec ''a:b:c'' = ''c''
   \<and> camelCase_spec ''b:c'' = ''b:c''"
  by (simp add: xml2js_elementNameFn_def replace_prefix_def dot_def line_terminator_def colon_def)

text \<open>
  A start tag changes the object of the current element and the array it pushes to, and
  no other object of the store.
\<close>

lemma wrap_single_keep:
  assumes "deref h a = Some ob" "a \<noteq> cur"
  shows "deref (wrap_single cur k h) a = Some ob"
  using assms
  by (auto simp: wrap_single_def alloc_def deref_def nth_append split: option.splits hobj.splits if_splits)

lemma push_keep:
  assumes "deref h a = Some (HObject ob)"
  shows "deref (push arr v h) a = Some (HObject ob)"
  using assms
  by (auto simp: push_def deref_def nth_list_update split: hval.splits option.splits hobj.splits if_splits)

lemma push_or_set_keep:
  assumes "deref h a = Some (HObject ob)" "a \<noteq> cur"
  shows "deref (push_or_set cur k v h) a = Some (HObject ob)"
proof (cases "deref h cur")
  case None
  then show ?thesis using assms by (simp add: push_or_set_def)
next
  case (Some x)
  show ?thesis
  proof (cases x)
    case (HObject kvs)
    show ?thesis
    proof (cases "is_array h (get_prop kvs k)")
      case True
      then show ?thesis using Some HObject assms(1) by (simp add: push_or_set_def push_keep)
    next
      case False
      then show ?thesis using Some HObject assms
        by (simp add: push_or_set_def deref_def split: if_splits)
    qed
  next
    case (HArray xs)
    then show ?thesis using Some assms by (simp add: push_or_set_def)
  qed
qed

lemma onStartElement_attributes:
  assumes "currentElement st < length (store st)"
  shows "\<exists>own. deref (store (onStartElement camelCase name val st))
                  (currentElement (onStartElement camelCase name val st))
               = Some (HObject (own @ [(''_parent'', HRef (currentElement st))]))
           \<and> (if filter (\<lambda>(n, v). n \<noteq> ''xmlns'') val = [] then own = []
              else \<exists>a. own = [(''_attributes'', HRef a)]
                     \<and> deref (store (onStartElement camelCase name val st)) a
                        = Some (HObject (map (\<lambda>(n, v). (n, HStr (js_trim v)))
                                  (filter (\<lambda>(n, v). n \<noteq> ''xmlns'') val))))"
proof -
  let ?cur = "currentElement st"
  let ?h = "store st"
  let ?kept = "filter (\<lambda>(n, v). n \<noteq> ''xmlns'') val"
  let ?name = "xml2js_elementNameFn camelCase name"
  show ?thesis
  proof (cases "?kept = []")
    case True
    let ?el = "length ?h"
    let ?h2 = "?h @ [HObject [(''_parent'', HRef ?cur)]]"
    have st': "onStartElement camelCase name val st
        = \<lparr> store = push_or_set ?cur ?name (HRef ?el) (wrap_single ?cur ?name ?h2),
            currentElement = ?el \<rparr>"
      using True by (simp add: onStartElement_def attributesFn_def alloc_def Let_def)
    have "deref ?h2 ?el = Some (HObject [(''_parent'', HRef ?cur)])"
      by (simp add: deref_def)
    then have "deref (push_or_set ?cur ?name (HRef ?el) (wrap_single ?cur ?name ?h2)) ?el
        = Some (HObject [(''_parent'', HRef ?cur)])"
      using assms by (intro push_or_set_keep wrap_single_keep) auto
    then show ?thesis using True st' by simp
  next
    case False
    let ?a = "length ?h"
    let ?ao = "HObject (map (\<lambda>(n, v). (n, HStr (js_trim v))) ?kept)"
    let ?el = "Suc (length ?h)"
    let ?eo = "HObject [(''_attributes'', HRef ?a), (''_parent'', HRef ?cur)]"
    let ?h2 = "(?h @ [?ao]) @ [?eo]"
    have m: "(\<lambda>(k, v). (k, HStr v)) \<circ> (\<lambda>(k, v). (k, js_trim v))
        = (\<lambda>(n, v). (n, HStr (js_trim v)))"
      by (auto simp: fun_eq_iff)
    have st': "onStartElement camelCase name val st
        = \<lparr> store = push_or_set ?cur ?name (HRef ?el) (wrap_single ?cur ?name ?h2),
            currentElement = ?el \<rparr>"
      using False by (simp add: onStartElement_def attributesFn_def alloc_def Let_def m)
    have "deref ?h2 ?el = Some ?eo" "deref ?h2 ?a = Some ?ao"
      by (simp_all add: deref_def nth_append)
    then have "deref (push_or_set ?cur ?name (HRef ?el) (wrap_single ?cur ?name ?h2)) ?el = Some ?eo"
      "deref (push_or_set ?cur ?name (HRef ?el) (wrap_single ?cur ?name ?h2)) ?a = Some ?ao"
      using assms by (auto intro!: push_or_set_keep wrap_single_keep)
    then show ?thesis using False st' by simp
  qed
qed

text \<open>
  Claim C8, as amended. \<^verbatim>\<open>attributesFn\<close> returns the attributes it is given without the
  one named exactly \<^verbatim>\<open>xmlns\<close>, the others in their order and with their values; a
  prefixed declaration such as \<^verbatim>\<open>xmlns:cs\<close> is one of the others. When a start tag is
  read (the current element being an object of the store), the element object built for
  it holds, under \<^verbatim>\<open>_attributes\<close>, the attributes of the tag that are not named
  \<^verbatim>\<open>xmlns\<close>, in document order, each value trimmed of the white space around it; it
  has no \<^verbatim>\<open>_attributes\<close> when no such attribute is left.
\<close>

theorem attributesFn_drops_only_xmlns:
  "map_of (attributesFn val) k = (if k = ''xmlns'' then None else map_of val k)
   \<and> map fst (attributesFn val) = filter (\<lambda>n. n \<noteq> ''xmlns'') (map fst val)
   \<and> (currentElement st < length (store st) \<longrightarrow>
        (\<exists>own. deref (store (onStartElement camelCase name val st))
                  (currentElement (onStartElement camelCase name val st))
               = Some (HObject (own @ [(''_parent'', HRef (currentElement st))]))
           \<and> (if filter (\<lambda>(n, v). n \<noteq> ''xmlns'') val = [] then own = []
              else \<exists>a. own = [(''_attributes'', HRef a)]
                     \<and> deref (store (onStartElement camelCase name val st)) a
                        = Some (HObject (map (\<lambda>(n, v). (n, HStr (js_trim v)))
                                  (filter (\<lambda>(n, v). n \<noteq> ''xmlns'') val))))))"
proof (intro conjI impI)
  have "map_of (filter (\<lambda>(n, v). n \<noteq> ''xmlns'') val) k
      = (if k = ''xmlns'' then None else map_of val k)" for val :: "(string \<times> string) list"
    by (induction val) auto
  then show "map_of (attributesFn val) k = (if k = ''xmlns'' then None else map_of val k)"
    by (simp add: attributesFn_def)
  show "map fst (attributesFn val) = filter (\<lambda>n. n \<noteq> ''xmlns'') (map fst val)"
    unfolding attributesFn_def by (induction val) auto
next
  assume "currentElement st < length (store st)"
  then show "\<exists>own. deref (store (onStartElement camelCase name val st))
                  (currentElement (onStartElement camelCase name val st))
               = Some (HObject (own @ [(''_parent'', HRef (currentElement st))]))
           \<and> (if filter (\<lambda>(n, v). n \<noteq> ''xmlns'') val = [] then own = []
              else \<exists>a. own = [(''_attributes'', HRef a)]
                     \<and> deref (store (onStartElement camelCase name val st)) a
                        = Some (HObject (map (\<lambda>(n, v). (n, HStr (js_trim v)))
                                  (filter (\<lambda>(n, v). n \<noteq> ''xmlns'') val))))"
    by (rule onStartElement_attributes)
qed

theorem attributesFn_drops_only_xmlns_witness:
  "currentElement \<lparr> store = [HObject []], currentElement = 0 \<rparr>
     < length (store \<lparr> store = [HObject []], currentElement = 0 \<rparr>)
   \<and> onStartElement camelCase_spec ''d:multistatus''
        [(''xmlns'', ''DAV:''), (''xmlns:cs'', ''http://calendarserver.org/ns/''), (''id'', '' 7 '')]
        \<lparr> store = [HObject []], currentElement = 0 \<rparr>
     = \<lparr> store =
           [HObject [(''multistatus'', HRef 2)],
            HObject [(''xmlns:cs'', HStr ''http://calendarserver.org/ns/''), (''id'', HStr ''7'')],
            HObject [(''_attributes'', HRef 1), (''_parent'', HRef 0)]],
         currentElement = 2 \<rparr>
   \<and> (\<exists>own a. deref (store (onStartElement camelCase_spec ''d:multistatus''
                   [(''xmlns'', ''DAV:''), (''xmlns:cs'', ''http://calendarserver.org/ns/''),
                    (''id'', '' 7 '')]
                   \<lparr> store = [HObject []], currentElement = 0 \<rparr>)) 2
               = Some (HObject (own @ [(''_parent'', HRef 0)]))
        \<and> own = [(''_attributes'', HRef a)]
        \<and> deref (store (onStartElement camelCase_spec ''d:multistatus''
                   [(''xmlns'', ''DAV:''), (''xmlns:cs'', ''http://calendarserver.org/ns/''),
                    (''id'', '' 7 '')]
                   \<lparr> store = [HObject []], currentElement = 0 \<rparr>)) a
            = Some (HObject [(''xmlns:cs'', HStr ''http://calendarserver.org/ns/''),
                             (''id'', HStr ''7'')]))
   \<and> map_of (attributesFn [(''xmlns'', ''DAV:''), (''id'', '' 7 '')]) ''xmlns'' = None
   \<and> map_of (attributesFn [(''xmlns'', ''DAV:''), (''id'', '' 7 '')]) ''id'' = Some '' 7 ''"
proof -
  let ?val = "[(''xmlns'', ''DAV:''), (''xmlns:cs'', ''http://calendarserver.org/ns/''), (''id'', '' 7 '')]"
  let ?st = "\<lparr> store = [HObject []], currentElement = 0 \<rparr>"
  have h: "currentElement ?st < length (store ?st)" by simp
  have e: "onStartElement camelCase_spec ''d:multistatus'' ?val ?st
     = \<lparr> store =
           [HObject [(''multistatus'', HRef 2)],
            HObject [(''xmlns:cs'', HStr ''http://calendarserver.org/ns/''), (''id'', HStr ''7'')],
            HObject [(''_attributes'', HRef 1), (''_parent'', HRef 0)]],
         currentElement = 2 \<rparr>"
    by code_simp
  have t: "js_trim '' 7 '' = ''7''" by code_simp
  have t2: "js_trim ''http://calendarserver.org/ns/'' = ''http://calendarserver.org/ns/''"
    by code_simp
  from attributesFn_drops_only_xmlns[where st = ?st and val = ?val and name = "''d:multistatus''"
      and camelCase = camelCase_spec and k = "''id''"] h
  have g: "\<exists>own a. deref (store (onStartElement camelCase_spec ''d:multistatus'' ?val ?st)) 2
               = Some (HObject (own @ [(''_parent'', HRef 0)]))
        \<and> own = [(''_attributes'', HRef a)]
        \<and> deref (store (onStartElement camelCase_spec ''d:multistatus'' ?val ?st)) a
            = Some (HObject [(''xmlns:cs'', HStr ''http://calendarserver.org/ns/''),
                             (''id'', HStr ''7'')])"
    by (simp add: e t t2)
  have m: "map_of (attributesFn [(''xmlns'', ''DAV:''), (''id'', '' 7 '')]) ''xmlns'' = None
   \<and> map_of (attributesFn [(''xmlns'', ''DAV:''), (''id'', '' 7 '')]) ''id'' = Some '' 7 ''"
    using attributesFn_drops_only_xmlns[where val = "[(''xmlns'', ''DAV:''), (''id'', '' 7 '')]"
        and k = "''xmlns''"]
      attributesFn_drops_only_xmlns[where val = "[(''xmlns'', ''DAV:''), (''id'', '' 7 '')]"
        and k = "''id''"]
    by simp
  show ?thesis using h e g m by blast
qed

text \<open>
  The claim as stated fails: \<^verbatim>\<open>xmlns:cs\<close> is not absent from the output; the value
  \<^verbatim>\<open>" 7 "\<close> of \<^verbatim>\<open>id\<close> does not survive unchanged, it is trimmed; and the attribute
  \<^verbatim>\<open>lang\<close> of the text leaf \<^verbatim>\<open>a\<close> does not survive at all, for \<^verbatim>\<open>textFn\<close> puts the text
  in the place of the element object.
\<close>

theorem attributesFn_keeps_prefixed_xmlns:
  "attributesFn [(''xmlns'', ''DAV:''), (''xmlns:cs'', ''http://calendarserver.org/ns/'')]
     = [(''xmlns:cs'', ''http://calendarserver.org/ns/'')]
   \<and> xml2js_events camelCase_spec nativeType_spec
       [OpenTag ''r'' [(''xmlns'', ''DAV:''), (''xmlns:cs'', ''http://calendarserver.org/ns/''),
                       (''id'', '' 7 '')],
          OpenTag ''a'' [(''lang'', ''en'')], Text ''x'', CloseTag,
        CloseTag]
     = JObj [(''r'', JObj [(''_attributes'',
                             JObj [(''xmlns:cs'', JStr ''http://calendarserver.org/ns/''),
                                   (''id'', JStr ''7'')]),
                           (''a'', JStr ''x'')])]"
  by code_simp

section \<open>Text leaves\<close>

text \<open>
  The parser on three documents: repeated leaves next to each other keep their values in
  order; a first value that is falsy is lost to the second.
\<close>

lemma ev_consecutive:
  "xml2js_events camelCase_spec nativeType_spec
     [OpenTag ''r'' [], OpenTag ''a'' [], Text ''1'', CloseTag, OpenTag ''a'' [], Text ''2'', CloseTag,
      OpenTag ''b'' [], Text ''3'', CloseTag, CloseTag]
   = JObj [(''r'', JObj [(''a'', JArr [JNum 1, JNum 2]), (''b'', JNum 3)])]"
  by code_simp

lemma ev_collapse:
  "xml2js_events camelCase_spec nativeType_spec
     [OpenTag ''r'' [], OpenTag ''a'' [], Text ''0'', CloseTag, OpenTag ''a'' [], Text ''5'', CloseTag,
      CloseTag]
   = JObj [(''r'', JObj [(''a'', JNum 5)])]"
  by code_simp

text \<open>
  Where the last key of the parent, in the order of \<^verbatim>\<open>Object.keys\<close>, holds a number,
  \<^verbatim>\<open>textFn\<close> overwrites that key. The
  name of the leaf the text belongs to plays no part.
\<close>

lemma textFn_sets_last_key:
  assumes "deref h parentElement = Some (HObject el)"
    and "get_prop el ''_parent'' = HRef pp"
    and "deref h pp = Some (HObject parentOfParent)"
    and "parentOfParent \<noteq> []"
    and "get_prop parentOfParent (last (object_keys parentOfParent)) = HNum n"
  shows "textFn nativeType val parentElement h =
           h[pp := HObject
                (set_prop (last (object_keys parentOfParent)) (nativeType val) parentOfParent)]"
  using assms by (simp add: textFn_def textFn_try_def length_of_def Let_def)

text \<open>
  Claim C7. \<^verbatim>\<open>textFn\<close> writes the coerced text under the last key of the parent, whatever
  the name of the leaf. For \<^verbatim>\<open><r><a>1</a><b>2</b><a>3</a></r>\<close> the text of the second
  \<^verbatim>\<open>a\<close> arrives when the parent's keys are \<^verbatim>\<open>a\<close> and \<^verbatim>\<open>b\<close>: the value 3 replaces the 2
  of \<^verbatim>\<open>b\<close>, and the slot of the second \<^verbatim>\<open>a\<close> keeps the element object. The claim asks
  for \<^verbatim>\<open>a = [1, 3]\<close> and \<^verbatim>\<open>b = 2\<close>. The same three leaves inside the \<^verbatim>\<open>prop\<close> of a
  multistatus response reach the \<^verbatim>\<open>props\<close> of the result.
\<close>

theorem textFn_writes_last_key:
  "textFn nativeType_spec ''3'' 4
     [HObject [(''r'', HRef 1)],
      HObject [(''_parent'', HRef 0), (''a'', HRef 5), (''b'', HNum 2)],
      HObject [(''_text'', HUndefined)],
      HObject [(''_text'', HUndefined)],
      HObject [(''_parent'', HRef 1)],
      HArray [HNum 1, HRef 4]]
   = [HObject [(''r'', HRef 1)],
      HObject [(''_parent'', HRef 0), (''a'', HRef 5), (''b'', HNum 3)],
      HObject [(''_text'', HUndefined)],
      HObject [(''_text'', HUndefined)],
      HObject [(''_parent'', HRef 1)],
      HArray [HNum 1, HRef 4]]
   \<and> xml2js_events camelCase_spec nativeType_spec
       [OpenTag ''r'' [], OpenTag ''a'' [], Text ''1'', CloseTag, OpenTag ''b'' [], Text ''2'', CloseTag,
        OpenTag ''a'' [], Text ''3'', CloseTag, CloseTag]
     = JObj [(''r'', JObj [(''a'', JArr [JNum 1, JObj [(''_text'', JUndefined)]]), (''b'', JNum 3)])]
   \<and> map_sum id (map props)
       (multistatus_results example_multistatus
          (xml2js_events camelCase_spec nativeType_spec
             [OpenTag ''d:multistatus'' [(''xmlns:d'', ''DAV:'')],
                OpenTag ''d:response'' [],
                  OpenTag ''d:href'' [], Text ''/books/'', CloseTag,
                  OpenTag ''d:propstat'' [],
                    OpenTag ''d:prop'' [],
                      OpenTag ''a'' [], Text ''1'', CloseTag,
                      OpenTag ''b'' [], Text ''2'', CloseTag,
                      OpenTag ''a'' [], Text ''3'', CloseTag,
                    CloseTag,
                    OpenTag ''d:status'' [], Text ''HTTP/1.1 200 OK'', CloseTag,
                  CloseTag,
                CloseTag,
              CloseTag]))
     = Inr [Some [(''a'', JArr [JNum 1, JObj [(''_text'', JUndefined)]]), (''b'', JNum 3)]]"
  by code_simp

section \<open>Address book synchronization\<close>

text \<open>
  As the sources stand, \<^verbatim>\<open>fetchAddressBooks\<close> never resolves: without options it throws on
  \<^verbatim>\<open>options.headers\<close>, and with options \<^verbatim>\<open>propfind\<close> receives \<^verbatim>\<open>account.homeUrl\<close> for its
  parameter object, finds no account in it, and \<^verbatim>\<open>davRequest\<close> throws on the credentials.
\<close>

lemma fetchAddressBooks_rejects:
  "fetchAddressBooks e h acct options log = (Inl TypeError, log)"
  by (simp add: fetchAddressBooks_def propfind_def destructure_def davRequest_def
      split: option.splits)

text \<open>
  Claim C10. As the sources stand, \<^verbatim>\<open>syncCardDAVAccount\<close> rejects with a TypeError on every
  input and performs no exchange, because \<^verbatim>\<open>fetchAddressBooks\<close>, which it awaits, does.
  The object of line 137, which has \<^verbatim>\<open>accountType\<close> with value \<^verbatim>\<open>carddav\<close> and nothing
  else, is what the code goes on to return once \<^verbatim>\<open>fetchAddressBooks\<close> has resolved; no
  call gets there. The claim says that every call returns that object.
\<close>

theorem syncCardDAVAccount_rejects:
  "syncCardDAVAccount e h acct options log = (Inl TypeError, log)
   \<and> sync_result h acct (Inr books) =
       Inr \<lparr> accountType = Some ''carddav'', credentials = None, homeUrl = None,
             rootUrl = None, addressBooks = None \<rparr>"
  by (simp add: syncCardDAVAccount_def fetchAddressBooks_rejects sync_result_def)

end
